theory Spec2Isabelle
  imports Main
begin

section \<open>LensLore: data model (types.ts)\<close>

text \<open>
  The application photographs a landmark, asks a hosted model to name it, asks a second
  model for its history with cited sources, and asks a third one to narrate the text.
  The embedding below follows \<^verbatim>\<open>types.ts\<close>, \<^verbatim>\<open>services/geminiService.ts\<close> and
  \<^verbatim>\<open>App.tsx\<close>. JavaScript strings are modelled as \<^typ>\<open>string\<close>; \<^verbatim>\<open>undefined\<close> and
  \<^verbatim>\<open>null\<close> are \<^const>\<open>None\<close>; a thrown value is the left summand of a sum.
\<close>

datatype AppStatus = IDLE | ANALYZING_IMAGE | SEARCHING_INFO | GENERATING_AUDIO | COMPLETE | ERROR

record AppError =
  message :: string

text \<open>An entry of \<^verbatim>\<open>LandmarkFullDetails.sources\<close>: \<^verbatim>\<open>{ title: string; uri: string }\<close>.\<close>

record Source =
  title :: string
  uri :: string

record LandmarkFullDetails =
  description :: string
  sources :: "Source list"

section \<open>JavaScript values used by the services\<close>

subsection \<open>Thrown values\<close>

text \<open>
  \<^verbatim>\<open>Error\<close> is what the repository's own code throws (\<^verbatim>\<open>new Error(msg)\<close>);
  \<^verbatim>\<open>SyntaxError\<close> is thrown by \<^verbatim>\<open>JSON.parse\<close> and \<^verbatim>\<open>TypeError\<close> by a property read on
  \<^verbatim>\<open>null\<close>, both with a text chosen by the JavaScript engine; \<^verbatim>\<open>Rejection\<close> is an object
  that a remote call or a decoder rejects with, whose \<^verbatim>\<open>message\<close> may be missing;
  \<^verbatim>\<open>Nullish\<close> is a thrown \<^verbatim>\<open>undefined\<close> or \<^verbatim>\<open>null\<close>, which the language allows and which
  has no properties.
\<close>

datatype js_error =
    Error string
  | SyntaxError string
  | TypeError string
  | Rejection "string option"
  | Nullish

text \<open>
  \<^verbatim>\<open>e.message\<close>: the message, which may be \<^verbatim>\<open>undefined\<close>; on a thrown \<^verbatim>\<open>undefined\<close> or
  \<^verbatim>\<open>null\<close> the read itself throws, which is the outer \<^const>\<open>None\<close>.
\<close>

fun message_of :: "js_error \<Rightarrow> string option option" where
  "message_of (Error m) = Some (Some m)"
| "message_of (SyntaxError m) = Some (Some m)"
| "message_of (TypeError m) = Some (Some m)"
| "message_of (Rejection m) = Some m"
| "message_of Nullish = None"

text \<open>\<^verbatim>\<open>x || d\<close> on an optional string: \<^verbatim>\<open>undefined\<close> and the empty string are falsy.\<close>

definition or_default :: "string option \<Rightarrow> string \<Rightarrow> string" where
  "or_default x d = (case x of None \<Rightarrow> d | Some v \<Rightarrow> if v = [] then d else v)"

text \<open>\<^verbatim>\<open>xs?.[i]\<close>: \<^verbatim>\<open>undefined\<close> when the array is missing or the index is out of range.\<close>

definition nth_opt :: "'a list \<Rightarrow> nat \<Rightarrow> 'a option" where
  "nth_opt xs i = (if i < length xs then Some (xs ! i) else None)"

definition first_of :: "'a list option \<Rightarrow> 'a option" where
  "first_of xs = (case xs of None \<Rightarrow> None | Some ys \<Rightarrow> nth_opt ys 0)"

subsection \<open>JSON values and \<^verbatim>\<open>JSON.parse\<close>\<close>

text \<open>
  A parsed JSON value. String contents are lists of UTF-16 code units, since a
  \<^verbatim>\<open>\uXXXX\<close> escape can denote any of them; a number keeps its lexeme (its floating-point
  value plays no role here); an object keeps its members in text order, a repeated key
  being looked up from the back (the last one wins in JavaScript).
\<close>

type_synonym jstring = "nat list"

datatype json =
    JNull
  | JBool bool
  | JNumber string
  | JString jstring
  | JArray "json list"
  | JObject "(jstring \<times> json) list"

definition js :: "string \<Rightarrow> jstring" where
  "js s = map of_char s"

text \<open>
  \<^verbatim>\<open>JSON.parse\<close> is a builtin of the platform. It is modelled by a pushdown automaton over
  the grammar of ECMA-404 that reads one character at a time: a mode says what is
  expected next, and a stack holds the arrays and objects that are still open.
\<close>

datatype frame =
    ArrayFrame "json list"
  | ObjectFrame "(jstring \<times> json) list" "jstring option"

datatype numstate = NMinus | NZero | NInt | NDot | NFrac | NExpMark | NExpSign | NExp

datatype num_result = NumNext numstate | NumEnd | NumFail

datatype mode =
    M_Value
  | M_ValueOrClose
  | M_KeyOrClose
  | M_Key
  | M_Colon
  | M_After
  | M_String bool jstring
  | M_Escape bool jstring
  | M_Unicode bool jstring "nat list"
  | M_Literal string json
  | M_Number numstate string

type_synonym config = "mode \<times> frame list \<times> json option"

definition code :: "char \<Rightarrow> nat" where
  "code c = of_char c"

definition is_ws :: "char \<Rightarrow> bool" where
  "is_ws c = (code c = 32 \<or> code c = 9 \<or> code c = 10 \<or> code c = 13)"

definition is_digit :: "char \<Rightarrow> bool" where
  "is_digit c = (48 \<le> code c \<and> code c \<le> 57)"

definition hexval :: "char \<Rightarrow> nat option" where
  "hexval c =
     (if 48 \<le> code c \<and> code c \<le> 57 then Some (code c - 48)
      else if 65 \<le> code c \<and> code c \<le> 70 then Some (code c - 55)
      else if 97 \<le> code c \<and> code c \<le> 102 then Some (code c - 87)
      else None)"

definition hexnum :: "nat list \<Rightarrow> nat" where
  "hexnum ds = foldl (\<lambda>n d. 16 * n + d) 0 ds"

text \<open>The single-character escapes: quote, backslash, slash, b, f, n, r, t.\<close>

definition escape_code :: "char \<Rightarrow> nat option" where
  "escape_code c =
     (if code c = 34 then Some 34
      else if code c = 92 then Some 92
      else if code c = 47 then Some 47
      else if c = CHR ''b'' then Some 8
      else if c = CHR ''f'' then Some 12
      else if c = CHR ''n'' then Some 10
      else if c = CHR ''r'' then Some 13
      else if c = CHR ''t'' then Some 9
      else None)"

fun num_step :: "numstate \<Rightarrow> char \<Rightarrow> num_result" where
  "num_step NMinus c =
     (if c = CHR ''0'' then NumNext NZero else if is_digit c then NumNext NInt else NumFail)"
| "num_step NZero c =
     (if c = CHR ''.'' then NumNext NDot
      else if c = CHR ''e'' \<or> c = CHR ''E'' then NumNext NExpMark
      else if is_digit c then NumFail else NumEnd)"
| "num_step NInt c =
     (if is_digit c then NumNext NInt
      else if c = CHR ''.'' then NumNext NDot
      else if c = CHR ''e'' \<or> c = CHR ''E'' then NumNext NExpMark else NumEnd)"
| "num_step NDot c = (if is_digit c then NumNext NFrac else NumFail)"
| "num_step NFrac c =
     (if is_digit c then NumNext NFrac
      else if c = CHR ''e'' \<or> c = CHR ''E'' then NumNext NExpMark else NumEnd)"
| "num_step NExpMark c =
     (if c = CHR ''+'' \<or> c = CHR ''-'' then NumNext NExpSign
      else if is_digit c then NumNext NExp else NumFail)"
| "num_step NExpSign c = (if is_digit c then NumNext NExp else NumFail)"
| "num_step NExp c = (if is_digit c then NumNext NExp else NumEnd)"

fun num_accepting :: "numstate \<Rightarrow> bool" where
  "num_accepting NZero = True"
| "num_accepting NInt = True"
| "num_accepting NFrac = True"
| "num_accepting NExp = True"
| "num_accepting _ = False"

text \<open>A finished value goes to the innermost open container, or becomes the result.\<close>

fun complete :: "json \<Rightarrow> frame list \<Rightarrow> config option" where
  "complete v [] = Some (M_After, [], Some v)"
| "complete v (ArrayFrame es # st) = Some (M_After, ArrayFrame (v # es) # st, None)"
| "complete v (ObjectFrame ms (Some k) # st) =
     Some (M_After, ObjectFrame ((k, v) # ms) None # st, None)"
| "complete v (ObjectFrame ms None # st) = None"

fun close_array :: "frame list \<Rightarrow> config option" where
  "close_array (ArrayFrame es # st) = complete (JArray (rev es)) st"
| "close_array _ = None"

fun close_object :: "frame list \<Rightarrow> config option" where
  "close_object (ObjectFrame ms None # st) = complete (JObject (rev ms)) st"
| "close_object _ = None"

definition start_value :: "char \<Rightarrow> frame list \<Rightarrow> config option" where
  "start_value c st =
     (if code c = 34 then Some (M_String False [], st, None)
      else if c = CHR ''{'' then Some (M_KeyOrClose, ObjectFrame [] None # st, None)
      else if c = CHR ''['' then Some (M_ValueOrClose, ArrayFrame [] # st, None)
      else if c = CHR ''t'' then Some (M_Literal ''rue'' (JBool True), st, None)
      else if c = CHR ''f'' then Some (M_Literal ''alse'' (JBool False), st, None)
      else if c = CHR ''n'' then Some (M_Literal ''ull'' JNull, st, None)
      else if c = CHR ''-'' then Some (M_Number NMinus [c], st, None)
      else if c = CHR ''0'' then Some (M_Number NZero [c], st, None)
      else if is_digit c then Some (M_Number NInt [c], st, None)
      else None)"

definition after_value :: "char \<Rightarrow> frame list \<Rightarrow> json option \<Rightarrow> config option" where
  "after_value c st res =
     (if is_ws c then Some (M_After, st, res)
      else if c = CHR '','' then
        (case st of
           ArrayFrame es # st' \<Rightarrow> Some (M_Value, st, None)
         | ObjectFrame ms None # st' \<Rightarrow> Some (M_Key, st, None)
         | _ \<Rightarrow> None)
      else if c = CHR '']'' then close_array st
      else if c = CHR ''}'' then close_object st
      else None)"

fun step :: "char \<Rightarrow> config \<Rightarrow> config option" where
  "step c (M_Value, st, res) =
     (if is_ws c then Some (M_Value, st, res) else start_value c st)"
| "step c (M_ValueOrClose, st, res) =
     (if is_ws c then Some (M_ValueOrClose, st, res)
      else if c = CHR '']'' then close_array st else start_value c st)"
| "step c (M_KeyOrClose, st, res) =
     (if is_ws c then Some (M_KeyOrClose, st, res)
      else if c = CHR ''}'' then close_object st
      else if code c = 34 then Some (M_String True [], st, None) else None)"
| "step c (M_Key, st, res) =
     (if is_ws c then Some (M_Key, st, res)
      else if code c = 34 then Some (M_String True [], st, None) else None)"
| "step c (M_Colon, st, res) =
     (if is_ws c then Some (M_Colon, st, res)
      else if c = CHR '':'' then Some (M_Value, st, None) else None)"
| "step c (M_After, st, res) = after_value c st res"
| "step c (M_String k acc, st, res) =
     (if code c = 34 then
        (if k then
           (case st of
              ObjectFrame ms None # st' \<Rightarrow> Some (M_Colon, ObjectFrame ms (Some (rev acc)) # st', None)
            | _ \<Rightarrow> None)
         else complete (JString (rev acc)) st)
      else if code c = 92 then Some (M_Escape k acc, st, None)
      else if code c < 32 then None
      else Some (M_String k (code c # acc), st, None))"
| "step c (M_Escape k acc, st, res) =
     (case escape_code c of
        Some n \<Rightarrow> Some (M_String k (n # acc), st, None)
      | None \<Rightarrow> if c = CHR ''u'' then Some (M_Unicode k acc [], st, None) else None)"
| "step c (M_Unicode k acc ds, st, res) =
     (case hexval c of
        None \<Rightarrow> None
      | Some h \<Rightarrow>
          if length ds = 3 then Some (M_String k (hexnum (ds @ [h]) # acc), st, None)
          else Some (M_Unicode k acc (ds @ [h]), st, None))"
| "step c (M_Literal rest v, st, res) =
     (case rest of
        [] \<Rightarrow> None
      | r # rs \<Rightarrow>
          if c \<noteq> r then None
          else if rs = [] then complete v st
          else Some (M_Literal rs v, st, None))"
| "step c (M_Number ns acc, st, res) =
     (case num_step ns c of
        NumNext ns' \<Rightarrow> Some (M_Number ns' (c # acc), st, None)
      | NumFail \<Rightarrow> None
      | NumEnd \<Rightarrow>
          (case complete (JNumber (rev acc)) st of
             None \<Rightarrow> None
           | Some (m', st', res') \<Rightarrow> after_value c st' res'))"

fun run :: "config \<Rightarrow> string \<Rightarrow> config option" where
  "run cfg [] = Some cfg"
| "run cfg (c # cs) = (case step c cfg of None \<Rightarrow> None | Some cfg' \<Rightarrow> run cfg' cs)"

fun finish :: "config \<Rightarrow> json option" where
  "finish (M_After, [], res) = res"
| "finish (M_Number ns acc, [], res) =
     (if num_accepting ns then Some (JNumber (rev acc)) else None)"
| "finish _ = None"

text \<open>\<^verbatim>\<open>JSON.parse(text)\<close>: \<^const>\<open>None\<close> stands for the thrown \<^verbatim>\<open>SyntaxError\<close>.\<close>

definition JSON_parse :: "string \<Rightarrow> json option" where
  "JSON_parse t = (case run (M_Value, [], None) t of None \<Rightarrow> None | Some cfg \<Rightarrow> finish cfg)"

text \<open>
  Reading the property \<^verbatim>\<open>key\<close> of a parsed value, for the two keys the orchestrator reads
  (\<^verbatim>\<open>name\<close>, \<^verbatim>\<open>visualDescription\<close>, which no prototype defines): an object yields its last
  member of that key or \<^verbatim>\<open>undefined\<close>, every other value but \<^verbatim>\<open>null\<close> yields
  \<^verbatim>\<open>undefined\<close>, and \<^verbatim>\<open>null\<close> throws a \<^verbatim>\<open>TypeError\<close>, reported here as \<^const>\<open>None\<close>.
\<close>

fun get_property :: "json \<Rightarrow> jstring \<Rightarrow> json option option" where
  "get_property JNull key = None"
| "get_property (JObject ms) key = Some (map_of (rev ms) key)"
| "get_property _ key = Some None"

subsection \<open>Responses of the remote model\<close>

text \<open>
  The part of the SDK's \<^verbatim>\<open>GenerateContentResponse\<close> that the services read. Every field
  is optional there, and the services read them through optional chaining.
\<close>

record Web =
  web_uri :: "string option"
  web_title :: "string option"

record GroundingChunk =
  web :: "Web option"

record GroundingMetadata =
  groundingChunks :: "GroundingChunk list option"

record InlineData =
  data :: "string option"

record Part =
  part_text :: "string option"
  inlineData :: "InlineData option"

record Content =
  parts :: "Part list option"

record Candidate =
  content :: "Content option"
  groundingMetadata :: "GroundingMetadata option"

record Response =
  response_text :: "string option"
  candidates :: "Candidate list option"

subsection \<open>The platform\<close>

text \<open>
  Everything outside the repository that the code calls: the environment variable, the
  three remote \<^verbatim>\<open>generateContent\<close> calls (each resolves to a response or rejects), the
  audio context constructor, the texts the engine gives its own errors, and the two
  decoders of \<^verbatim>\<open>utils/audioUtils\<close>, whose source is not part of the files at hand and which
  are therefore parameters. A remote call that never settles is not modelled.
\<close>

type_synonym bytes = "nat list"

type_synonym AudioBuffer = "int list"

record AudioContext =
  sampleRate :: nat

record platform =
  API_KEY :: "string option"
  generateContent_vision :: "string option \<Rightarrow> js_error + Response"
  generateContent_search :: "json option \<Rightarrow> json option \<Rightarrow> js_error + Response"
  generateContent_tts :: "string \<Rightarrow> js_error + Response"
  newAudioContext :: "nat \<Rightarrow> js_error + AudioContext"
  decodeBase64 :: "string \<Rightarrow> js_error + bytes"
  decodeAudioData :: "bytes \<Rightarrow> AudioContext \<Rightarrow> nat \<Rightarrow> nat \<Rightarrow> js_error + AudioBuffer"
  syntaxErrorText :: "string \<Rightarrow> string"
  typeErrorText :: string

section \<open>The services (services/geminiService.ts)\<close>

definition getClient :: "platform \<Rightarrow> js_error + unit" where
  "getClient p =
     (case API_KEY p of
        None \<Rightarrow> Inl (Error ''API_KEY is missing in environment variables'')
      | Some k \<Rightarrow>
          if k = [] then Inl (Error ''API_KEY is missing in environment variables'')
          else Inr ())"

subsection \<open>Step 1: identifyLandmark\<close>

text \<open>
  The request carries the image and asks for JSON under a two-field schema; what comes
  back is parsed and cast to \<^verbatim>\<open>LandmarkAnalysisResult\<close>. The cast checks nothing at run
  time, so the value returned is whatever \<^verbatim>\<open>JSON.parse\<close> produced.
\<close>

definition identifyLandmark :: "platform \<Rightarrow> string option \<Rightarrow> js_error + json" where
  "identifyLandmark p imageBase64 =
     (case getClient p of
        Inl e \<Rightarrow> Inl e
      | Inr ai \<Rightarrow>
          (case generateContent_vision p imageBase64 of
             Inl e \<Rightarrow> Inl e
           | Inr response \<Rightarrow>
               (case response_text response of
                  None \<Rightarrow> Inl (Error ''No response from vision model'')
                | Some t \<Rightarrow>
                    if t = [] then Inl (Error ''No response from vision model'')
                    else
                      (case JSON_parse t of
                         None \<Rightarrow> Inl (SyntaxError (syntaxErrorText p t))
                       | Some v \<Rightarrow> Inr v))))"

subsection \<open>Step 2: getLandmarkDetails\<close>

text \<open>
  \<^verbatim>\<open>new Map(entries)\<close> inserts the entries in order: a new key is appended, a key already
  present keeps its position and takes the new value. \<^verbatim>\<open>values()\<close> lists the values in
  key order.
\<close>

fun Map_set :: "('k \<times> 'v) list \<Rightarrow> 'k \<Rightarrow> 'v \<Rightarrow> ('k \<times> 'v) list" where
  "Map_set [] k v = [(k, v)]"
| "Map_set ((k', v') # m) k v = (if k' = k then (k, v) # m else (k', v') # Map_set m k v)"

definition Map_new :: "('k \<times> 'v) list \<Rightarrow> ('k \<times> 'v) list" where
  "Map_new entries = foldl (\<lambda>m (k, v). Map_set m k v) [] entries"

definition Map_values :: "('k \<times> 'v) list \<Rightarrow> 'v list" where
  "Map_values m = map snd m"

text \<open>\<^verbatim>\<open>c.web?.title || "Source"\<close> and \<^verbatim>\<open>c.web?.uri || ""\<close>.\<close>

definition toSource :: "GroundingChunk \<Rightarrow> Source" where
  "toSource c =
     \<lparr> title = or_default (case web c of None \<Rightarrow> None | Some w \<Rightarrow> web_title w) ''Source'',
       uri = or_default (case web c of None \<Rightarrow> None | Some w \<Rightarrow> web_uri w) [] \<rparr>"

text \<open>\<^verbatim>\<open>response.candidates?.[0]?.groundingMetadata?.groundingChunks || []\<close>.\<close>

definition chunks_of :: "Response \<Rightarrow> GroundingChunk list" where
  "chunks_of response =
     (case first_of (candidates response) of
        None \<Rightarrow> []
      | Some c \<Rightarrow>
          (case groundingMetadata c of
             None \<Rightarrow> []
           | Some g \<Rightarrow> (case groundingChunks g of None \<Rightarrow> [] | Some cs \<Rightarrow> cs)))"

text \<open>The local \<^verbatim>\<open>sources\<close>: the mapped chunks, without those whose uri is empty.\<close>

definition sources_of :: "Response \<Rightarrow> Source list" where
  "sources_of response = filter (\<lambda>s. uri s \<noteq> []) (map toSource (chunks_of response))"

definition uniqueSources :: "Source list \<Rightarrow> Source list" where
  "uniqueSources srcs = Map_values (Map_new (map (\<lambda>item. (uri item, item)) srcs))"

definition getLandmarkDetails ::
    "platform \<Rightarrow> json option \<Rightarrow> json option \<Rightarrow> js_error + LandmarkFullDetails" where
  "getLandmarkDetails p landmarkName visualCtx =
     (case getClient p of
        Inl e \<Rightarrow> Inl e
      | Inr ai \<Rightarrow>
          (case generateContent_search p landmarkName visualCtx of
             Inl e \<Rightarrow> Inl e
           | Inr response \<Rightarrow>
               Inr \<lparr> description = or_default (response_text response) ''Could not retrieve details.'',
                     sources = uniqueSources (sources_of response) \<rparr>))"

subsection \<open>Step 3: generateNarration\<close>

text \<open>\<^verbatim>\<open>response.candidates?.[0]?.content?.parts?.[0]?.inlineData?.data\<close>.\<close>

definition audioData :: "Response \<Rightarrow> string option" where
  "audioData response =
     (case first_of (candidates response) of
        None \<Rightarrow> None
      | Some c \<Rightarrow>
          (case content c of
             None \<Rightarrow> None
           | Some ct \<Rightarrow>
               (case first_of (parts ct) of
                  None \<Rightarrow> None
                | Some pt \<Rightarrow>
                    (case inlineData pt of None \<Rightarrow> None | Some d \<Rightarrow> data d))))"

definition generateNarration :: "platform \<Rightarrow> string \<Rightarrow> js_error + string" where
  "generateNarration p txt =
     (case getClient p of
        Inl e \<Rightarrow> Inl e
      | Inr ai \<Rightarrow>
          (case generateContent_tts p txt of
             Inl e \<Rightarrow> Inl e
           | Inr response \<Rightarrow>
               (case audioData response of
                  None \<Rightarrow> Inl (Error ''No audio generated'')
                | Some d \<Rightarrow> if d = [] then Inl (Error ''No audio generated'') else Inr d)))"

section \<open>The orchestrator (App.tsx)\<close>

subsection \<open>State\<close>

text \<open>
  The component's state variables and refs. \<^verbatim>\<open>image\<close> is called \<open>image_s\<close> here. A source
  node is its buffer and whether it is sounding; \<open>fileInputRef\<close> is the value of the
  file input when the ref is set.
\<close>

record AudioBufferSourceNode =
  buffer :: AudioBuffer
  playing :: bool

record app_state =
  status :: AppStatus
  image_s :: "string option"
  error :: "AppError option"
  landmark :: "json option"
  details :: "LandmarkFullDetails option"
  audioBuffer :: "AudioBuffer option"
  isPlaying :: bool
  audioContextRef :: "AudioContext option"
  sourceNodeRef :: "AudioBufferSourceNode option"
  fileInputRef :: "string option"

definition initial_state :: app_state where
  "initial_state =
     \<lparr> status = IDLE, image_s = None, error = None, landmark = None, details = None,
       audioBuffer = None, isPlaying = False, audioContextRef = None, sourceNodeRef = None,
       fileInputRef = Some [] \<rparr>"

subsection \<open>startAnalysis\<close>

text \<open>
  Each function of this subsection returns the states the component goes through, one
  per state update, in order. The \<^verbatim>\<open>catch\<close> block reads the message of what was thrown,
  stores it, or a fixed text when there is none, and then sets the status. When
  \<^verbatim>\<open>undefined\<close> or \<^verbatim>\<open>null\<close> was thrown, reading the message throws out of the block before
  any update: the state stays as it is and the promise of \<^verbatim>\<open>startAnalysis\<close> rejects.
\<close>

definition catch_block :: "js_error \<Rightarrow> app_state \<Rightarrow> app_state list" where
  "catch_block e s =
     (case message_of e of
        None \<Rightarrow> []
      | Some m \<Rightarrow>
          (let s1 = s\<lparr>error := Some \<lparr>message =
                      or_default m ''Something went wrong during analysis.''\<rparr>\<rparr>;
               s2 = s1\<lparr>status := ERROR\<rparr>
           in [s1, s2]))"

text \<open>
  Lines 60 to 62: the text that is narrated. \<^verbatim>\<open>length\<close> and \<^verbatim>\<open>substring\<close> count UTF-16
  code units and never look at them, so the expression is written for any type of unit;
  \<open>ttsText\<close> is its instance for the strings of this model, in which a character stands
  for one unit.
\<close>

definition ttsText_units :: "'u list \<Rightarrow> 'u list \<Rightarrow> 'u list" where
  "ttsText_units dots d = (if length d > 500 then take 500 d @ dots else d)"

definition ttsText :: "string \<Rightarrow> string" where
  "ttsText d = ttsText_units ''...'' d"

text \<open>The two decoding steps and the end of the \<^verbatim>\<open>try\<close> block.\<close>

definition decode :: "platform \<Rightarrow> string \<Rightarrow> AudioContext \<Rightarrow> app_state \<Rightarrow> app_state list" where
  "decode p audioBase64 ctx s =
     (case decodeBase64 p audioBase64 of
        Inl e \<Rightarrow> catch_block e s
      | Inr rawBytes \<Rightarrow>
          (case decodeAudioData p rawBytes ctx 24000 1 of
             Inl e \<Rightarrow> catch_block e s
           | Inr buf \<Rightarrow>
               (let s1 = s\<lparr>audioBuffer := Some buf\<rparr>;
                    s2 = s1\<lparr>status := COMPLETE\<rparr>
                in [s1, s2])))"

text \<open>
  From the call of \<^verbatim>\<open>generateNarration\<close> on; the audio context is created on first use.
\<close>

definition narrate :: "platform \<Rightarrow> LandmarkFullDetails \<Rightarrow> app_state \<Rightarrow> app_state list" where
  "narrate p detailResult s =
     (case generateNarration p (ttsText (description detailResult)) of
        Inl e \<Rightarrow> catch_block e s
      | Inr audioBase64 \<Rightarrow>
          (case audioContextRef s of
             Some ctx \<Rightarrow> decode p audioBase64 ctx s
           | None \<Rightarrow>
               (case newAudioContext p 24000 of
                  Inl e \<Rightarrow> catch_block e s
                | Inr ctx \<Rightarrow>
                    (let s1 = s\<lparr>audioContextRef := Some ctx\<rparr>
                     in s1 # decode p audioBase64 ctx s1))))"

text \<open>From \<^verbatim>\<open>setStatus(SEARCHING_INFO)\<close> on; the two property reads come before the call.\<close>

definition search :: "platform \<Rightarrow> json \<Rightarrow> app_state \<Rightarrow> app_state list" where
  "search p idResult s =
     (let s1 = s\<lparr>status := SEARCHING_INFO\<rparr>
      in s1 #
         (case get_property idResult (js ''name'') of
            None \<Rightarrow> catch_block (TypeError (typeErrorText p)) s1
          | Some nm \<Rightarrow>
              (case get_property idResult (js ''visualDescription'') of
                 None \<Rightarrow> catch_block (TypeError (typeErrorText p)) s1
               | Some vd \<Rightarrow>
                   (case getLandmarkDetails p nm vd of
                      Inl e \<Rightarrow> catch_block e s1
                    | Inr detailResult \<Rightarrow>
                        (let s2 = s1\<lparr>details := Some detailResult\<rparr>;
                             s3 = s2\<lparr>status := GENERATING_AUDIO\<rparr>
                         in s2 # s3 # narrate p detailResult s3)))))"

text \<open>
  The state variable \<^verbatim>\<open>landmark\<close> is \<^verbatim>\<open>null\<close> when the parsed value is the JSON
  \<^verbatim>\<open>null\<close>.
\<close>

definition startAnalysis_trace :: "platform \<Rightarrow> string option \<Rightarrow> app_state \<Rightarrow> app_state list" where
  "startAnalysis_trace p imageBase64 s =
     (let s1 = s\<lparr>error := None\<rparr>;
          s2 = s1\<lparr>landmark := None\<rparr>;
          s3 = s2\<lparr>details := None\<rparr>;
          s4 = s3\<lparr>audioBuffer := None\<rparr>;
          s5 = s4\<lparr>status := ANALYZING_IMAGE\<rparr>
      in [s1, s2, s3, s4, s5] @
         (case identifyLandmark p imageBase64 of
            Inl e \<Rightarrow> catch_block e s5
          | Inr idResult \<Rightarrow>
              (let s6 = s5\<lparr>landmark := (if idResult = JNull then None else Some idResult)\<rparr>
               in s6 # search p idResult s6)))"

text \<open>The state in which a run of the pipeline ends.\<close>

definition startAnalysis :: "platform \<Rightarrow> string option \<Rightarrow> app_state \<Rightarrow> app_state" where
  "startAnalysis p imageBase64 s = last (s # startAnalysis_trace p imageBase64 s)"

subsection \<open>handleFileSelect\<close>

text \<open>\<^verbatim>\<open>s.split(',')\<close>: the pieces between the separators, always at least one piece.\<close>

fun String_split :: "char \<Rightarrow> string \<Rightarrow> string list" where
  "String_split sep [] = [[]]"
| "String_split sep (c # cs) =
     (if c = sep then [] # String_split sep cs
      else (case String_split sep cs of
              [] \<Rightarrow> [[c]]
            | seg # segs \<Rightarrow> (c # seg) # segs))"

definition base64Data :: "string \<Rightarrow> string option" where
  "base64Data result = nth_opt (String_split CHR '','' result) 1"

text \<open>
  What \<^verbatim>\<open>reader.readAsDataURL(file)\<close> delivers, by the File API: the scheme, the media
  type of the file, the base64 marker, a comma and the content of the file in base64,
  whose alphabet is the letters, the digits and the three characters \<^verbatim>\<open>+ / =\<close>.
\<close>

definition readAsDataURL :: "string \<Rightarrow> string \<Rightarrow> string" where
  "readAsDataURL mediaType content64 = ''data:'' @ mediaType @ '';base64,'' @ content64"

definition base64_char :: "char \<Rightarrow> bool" where
  "base64_char c =
     ((65 \<le> code c \<and> code c \<le> 90) \<or> (97 \<le> code c \<and> code c \<le> 122) \<or>
      (48 \<le> code c \<and> code c \<le> 57) \<or> code c = 43 \<or> code c = 47 \<or> code c = 61)"

text \<open>
  The \<^verbatim>\<open>onload\<close> handler of the reader, given the data URI it has read. No file selected:
  nothing happens.
\<close>

definition onload :: "platform \<Rightarrow> string \<Rightarrow> app_state \<Rightarrow> app_state list" where
  "onload p result s =
     (let s1 = s\<lparr>image_s := Some result\<rparr>
      in s1 # startAnalysis_trace p (base64Data result) s1)"

definition handleFileSelect :: "platform \<Rightarrow> string option \<Rightarrow> app_state \<Rightarrow> app_state list" where
  "handleFileSelect p file s = (case file of None \<Rightarrow> [] | Some result \<Rightarrow> onload p result s)"

subsection \<open>toggleAudio and resetApp\<close>

definition stop :: "AudioBufferSourceNode \<Rightarrow> AudioBufferSourceNode" where
  "stop n = n\<lparr>playing := False\<rparr>"

definition toggleAudio :: "app_state \<Rightarrow> app_state" where
  "toggleAudio s =
     (case audioContextRef s of
        None \<Rightarrow> s
      | Some ctx \<Rightarrow>
          (case audioBuffer s of
             None \<Rightarrow> s
           | Some buf \<Rightarrow>
               if isPlaying s
               then s\<lparr>sourceNodeRef := map_option stop (sourceNodeRef s), isPlaying := False\<rparr>
               else s\<lparr>sourceNodeRef := Some \<lparr>buffer = buf, playing = True\<rparr>,
                      isPlaying := True\<rparr>))"

text \<open>The \<^verbatim>\<open>onended\<close> callback of the current source node.\<close>

definition onended :: "app_state \<Rightarrow> app_state" where
  "onended s = s\<lparr>sourceNodeRef := map_option stop (sourceNodeRef s), isPlaying := False\<rparr>"

definition resetApp :: "app_state \<Rightarrow> app_state" where
  "resetApp s =
     s\<lparr>sourceNodeRef := map_option stop (sourceNodeRef s),
       isPlaying := False,
       status := IDLE,
       image_s := None,
       landmark := None,
       details := None,
       fileInputRef := map_option (\<lambda>v. []) (fileInputRef s)\<rparr>"

subsection \<open>Reachable states\<close>

text \<open>
  What the user interface allows: the file inputs exist in the idle view only, the audio
  button in the result view, the reset button in the result and error views. Every state
  a run of the pipeline passes through is reachable.
\<close>

inductive reachable :: "app_state \<Rightarrow> bool" where
  r_init: "reachable initial_state"
| r_select: "reachable s \<Longrightarrow> status s = IDLE \<Longrightarrow> t \<in> set (handleFileSelect p file s) \<Longrightarrow> reachable t"
| r_toggle: "reachable s \<Longrightarrow> status s = COMPLETE \<Longrightarrow> reachable (toggleAudio s)"
| r_ended: "reachable s \<Longrightarrow> reachable (onended s)"
| r_reset: "reachable s \<Longrightarrow> status s = COMPLETE \<or> status s = ERROR \<Longrightarrow> reachable (resetApp s)"

section \<open>Notions of the specification\<close>

text \<open>
  The following definitions are not taken from the code. They say, in the words of the
  specification, what the code is compared with.
\<close>

text \<open>
  Deduplication in which the first occurrence wins: an entry is kept, and every later
  entry with the same key is dropped.
\<close>

fun keep_first :: "('a \<Rightarrow> 'k) \<Rightarrow> 'a list \<Rightarrow> 'a list" where
  "keep_first f [] = []"
| "keep_first f (x # xs) = x # keep_first f (filter (\<lambda>y. f y \<noteq> f x) xs)"

definition dedup_first_wins :: "Source list \<Rightarrow> Source list" where
  "dedup_first_wins srcs = keep_first uri srcs"

text \<open>The schema of the vision step: an object whose \<^verbatim>\<open>name\<close> and \<^verbatim>\<open>visualDescription\<close> are strings.\<close>

definition is_string :: "json option \<Rightarrow> bool" where
  "is_string v = (case v of Some (JString x) \<Rightarrow> True | _ \<Rightarrow> False)"

definition matches_schema :: "json \<Rightarrow> bool" where
  "matches_schema v =
     (case v of
        JObject ms \<Rightarrow>
          is_string (map_of (rev ms) (js ''name'')) \<and>
          is_string (map_of (rev ms) (js ''visualDescription''))
      | _ \<Rightarrow> False)"




text \<open>The part of a string that follows its first comma, if it has one.\<close>

definition after_first_comma :: "string \<Rightarrow> string option" where
  "after_first_comma s =
     (case dropWhile (\<lambda>c. c \<noteq> CHR '','') s of [] \<Rightarrow> None | c # rest \<Rightarrow> Some rest)"

text \<open>The invariant of section 3: what the two final statuses imply.\<close>

definition consistent :: "app_state \<Rightarrow> bool" where
  "consistent s =
     ((status s = COMPLETE \<longrightarrow>
         landmark s \<noteq> None \<and> details s \<noteq> None \<and> audioBuffer s \<noteq> None) \<and>
      (status s = ERROR \<longrightarrow> (case error s of None \<Rightarrow> False | Some e \<Rightarrow> message e \<noteq> [])))"

section \<open>Concrete inputs\<close>

text \<open>A platform whose three remote calls answer with fixed responses.\<close>

definition answering :: "Response \<Rightarrow> Response \<Rightarrow> Response \<Rightarrow> platform" where
  "answering vision_r search_r tts_r =
     \<lparr> API_KEY = Some ''secret'',
       generateContent_vision = (\<lambda>img. Inr vision_r),
       generateContent_search = (\<lambda>nm vd. Inr search_r),
       generateContent_tts = (\<lambda>txt. Inr tts_r),
       newAudioContext = (\<lambda>rate. Inr \<lparr>sampleRate = rate\<rparr>),
       decodeBase64 = (\<lambda>b. Inr [0, 1, 255, 127]),
       decodeAudioData = (\<lambda>raw ctx rate channels. Inr [256, 32767]),
       syntaxErrorText = (\<lambda>t. ''Unexpected token''),
       typeErrorText = ''Cannot read properties of null'' \<rparr>"

definition text_response :: "string \<Rightarrow> Response" where
  "text_response t = \<lparr> response_text = Some t, candidates = None \<rparr>"

definition dq :: "string \<Rightarrow> string" where
  "dq s = CHR 0x22 # s @ [CHR 0x22]"

definition tower_json :: string where
  "tower_json =
     ''{'' @ dq ''name'' @ '':'' @ dq ''Eiffel Tower'' @ '','' @
     dq ''visualDescription'' @ '':'' @ dq ''An iron tower'' @ ''}''"

definition cite :: "string option \<Rightarrow> string option \<Rightarrow> GroundingChunk" where
  "cite t u = \<lparr> web = Some \<lparr> web_uri = u, web_title = t \<rparr> \<rparr>"

definition grounded_response :: "string option \<Rightarrow> GroundingChunk list \<Rightarrow> Response" where
  "grounded_response t cs =
     \<lparr> response_text = t,
       candidates = Some [\<lparr> content = None,
                            groundingMetadata = Some \<lparr> groundingChunks = Some cs \<rparr> \<rparr>] \<rparr>"

definition tower_chunks :: "GroundingChunk list" where
  "tower_chunks =
     [cite (Some ''First'') (Some ''a''),
      cite (Some ''Guide'') (Some ''b''),
      cite (Some ''Second'') (Some ''a''),
      cite (Some ''Nowhere'') None,
      cite None (Some ''c'')]"

definition tower_search :: Response where
  "tower_search = grounded_response (Some ''Built for the 1889 fair.'') tower_chunks"

definition audio_part :: "string \<Rightarrow> Part" where
  "audio_part d = \<lparr> part_text = None, inlineData = Some \<lparr> data = Some d \<rparr> \<rparr>"

definition text_part :: "string \<Rightarrow> Part" where
  "text_part t = \<lparr> part_text = Some t, inlineData = None \<rparr>"

definition parts_response :: "Part list \<Rightarrow> Response" where
  "parts_response ps =
     \<lparr> response_text = None,
       candidates = Some [\<lparr> content = Some \<lparr> parts = Some ps \<rparr>, groundingMetadata = None \<rparr>] \<rparr>"

definition tower_platform :: platform where
  "tower_platform =
     answering (text_response tower_json) tower_search (parts_response [audio_part ''UklGRg=='']) "

text \<open>A state of the error view, and one of the result view with the guide sounding.\<close>

definition failed_state :: app_state where
  "failed_state =
     initial_state\<lparr> status := ERROR, image_s := Some ''data:image/png;base64,AAAA'',
       error := Some \<lparr>message = ''No audio generated''\<rparr>, fileInputRef := None \<rparr>"

definition playing_state :: app_state where
  "playing_state =
     initial_state\<lparr> status := COMPLETE, image_s := Some ''data:image/png;base64,AAAA'',
       landmark := Some (JObject []),
       details := Some \<lparr> description = ''Built for the 1889 fair.'', sources = [] \<rparr>,
       audioBuffer := Some [256, 32767], isPlaying := True,
       audioContextRef := Some \<lparr>sampleRate = 24000\<rparr>,
       sourceNodeRef := Some \<lparr>buffer = [256, 32767], playing = True\<rparr>,
       fileInputRef := None \<rparr>"

text \<open>The state in which choosing a picture ends on \<open>tower_platform\<close>.\<close>

definition tower_result :: app_state where
  "tower_result =
     \<lparr> status = COMPLETE, image_s = Some ''data:image/png;base64,AAAA'', error = None,
       landmark = Some (JObject [(js ''name'', JString (js ''Eiffel Tower'')),
                                 (js ''visualDescription'', JString (js ''An iron tower''))]),
       details = Some \<lparr> description = ''Built for the 1889 fair.'',
           sources = [\<lparr>title = ''Second'', uri = ''a''\<rparr>, \<lparr>title = ''Guide'', uri = ''b''\<rparr>,
                      \<lparr>title = ''Source'', uri = ''c''\<rparr>] \<rparr>,
       audioBuffer = Some [256, 32767], isPlaying = False,
       audioContextRef = Some \<lparr>sampleRate = 24000\<rparr>, sourceNodeRef = None,
       fileInputRef = Some [] \<rparr>"

text \<open>Platforms that differ from \<open>tower_platform\<close> in one answer.\<close>

definition empty_object_platform :: platform where
  "empty_object_platform =
     answering (text_response ''{}'') tower_search (parts_response [audio_part ''UklGRg==''])"


text \<open>
  A platform whose enrichment call answers with the description \<open>d\<close> and no citation, and
  whose synthesis call answers as \<open>g\<close> says; and a synthesis service that rejects one
  text and answers every other text with audio.
\<close>

definition narrating :: "string \<Rightarrow> (string \<Rightarrow> js_error + Response) \<Rightarrow> platform" where
  "narrating d g =
     (answering (text_response tower_json) (grounded_response (Some d) [])
        (parts_response [audio_part ''UklGRg==''])) \<lparr> generateContent_tts := g \<rparr>"

definition rejecting_only :: "string \<Rightarrow> string \<Rightarrow> js_error + Response" where
  "rejecting_only t x =
     (if x = t then Inl (Rejection (Some ''quota exceeded''))
      else Inr (parts_response [audio_part ''UklGRg==''])) "

definition rejecting_cut_800 :: platform where
  "rejecting_cut_800 =
     narrating (replicate 800 CHR ''x'') (rejecting_only (replicate 500 CHR ''x'' @ ''...''))"

definition rejecting_whole_500 :: platform where
  "rejecting_whole_500 =
     narrating (replicate 500 CHR ''a'') (rejecting_only (replicate 500 CHR ''a''))"

text \<open>A platform whose vision call rejects with \<^verbatim>\<open>undefined\<close>.\<close>

definition nullish_platform :: platform where
  "nullish_platform = tower_platform\<lparr> generateContent_vision := (\<lambda>img. Inl Nullish) \<rparr>"

section \<open>Auxiliary predicates\<close>

text \<open>A state with one of the two final statuses.\<close>

definition ended :: "app_state \<Rightarrow> bool" where
  "ended t = (status t = COMPLETE \<or> status t = ERROR)"

text \<open>
  A platform none of whose calls throws \<^verbatim>\<open>undefined\<close> or \<^verbatim>\<open>null\<close>: whatever is thrown is
  an object.
\<close>

definition throws_objects :: "platform \<Rightarrow> bool" where
  "throws_objects p =
     ((\<forall>img. generateContent_vision p img \<noteq> Inl Nullish) \<and>
      (\<forall>nm vd. generateContent_search p nm vd \<noteq> Inl Nullish) \<and>
      (\<forall>txt. generateContent_tts p txt \<noteq> Inl Nullish) \<and>
      (\<forall>rate. newAudioContext p rate \<noteq> Inl Nullish) \<and>
      (\<forall>b. decodeBase64 p b \<noteq> Inl Nullish) \<and>
      (\<forall>raw ctx rate channels. decodeAudioData p raw ctx rate channels \<noteq> Inl Nullish))"

text \<open>The last state of a trace that starts after \<open>s\<close>.\<close>

definition final :: "'a \<Rightarrow> 'a list \<Rightarrow> 'a" where
  "final s xs = last (s # xs)"

text \<open>
  The details with which a run enters the narration step, and the state it is in then;
  \<^const>\<open>None\<close> when the run ends before.
\<close>

definition narration_entry ::
    "platform \<Rightarrow> string option \<Rightarrow> app_state \<Rightarrow> (LandmarkFullDetails \<times> app_state) option" where
  "narration_entry p img s =
     (case identifyLandmark p img of
        Inl e \<Rightarrow> None
      | Inr v \<Rightarrow>
          (case get_property v (js ''name'') of
             None \<Rightarrow> None
           | Some nm \<Rightarrow>
               (case get_property v (js ''visualDescription'') of
                  None \<Rightarrow> None
                | Some vd \<Rightarrow>
                    (case getLandmarkDetails p nm vd of
                       Inl e \<Rightarrow> None
                     | Inr d \<Rightarrow>
                         Some (d, s\<lparr>error := None, audioBuffer := None,
                                    landmark := (if v = JNull then None else Some v),
                                    details := Some d, status := GENERATING_AUDIO\<rparr>)))))"

text \<open>One insertion of \<^verbatim>\<open>new Map(entries)\<close>.\<close>

abbreviation Map_step :: "('k \<times> 'v) list \<Rightarrow> 'k \<times> 'v \<Rightarrow> ('k \<times> 'v) list" where
  "Map_step \<equiv> (\<lambda>m (k, v). Map_set m k v)"

section \<open>Properties of the orchestrator\<close>

subsection \<open>Where a run ends\<close>

lemma or_default_nonempty: "d \<noteq> [] \<Longrightarrow> or_default x d \<noteq> []"
  by (simp add: or_default_def split: option.splits)

lemma final_Nil: "final s [] = s"
  by (simp add: final_def)

lemma final_Cons: "final s (x # xs) = final x xs"
  by (simp add: final_def)

lemma final_append: "final s (xs @ ys) = final (final s xs) ys"
  by (induction xs arbitrary: s) (simp_all add: final_Nil final_Cons)

lemmas final_simps = final_Nil final_Cons final_append

lemma startAnalysis_final: "startAnalysis p img s = final s (startAnalysis_trace p img s)"
  by (simp add: startAnalysis_def final_def)

lemma catch_block_final:
  "final s (catch_block e s) =
     (case message_of e of
        None \<Rightarrow> s
      | Some m \<Rightarrow> s\<lparr>error := Some \<lparr>message = or_default m ''Something went wrong during analysis.''\<rparr>,
                   status := ERROR\<rparr>)"
  by (simp add: catch_block_def Let_def final_simps split: option.splits)

lemma decode_final_details: "details (final s (decode p a ctx s)) = details s"
  by (simp add: decode_def Let_def final_simps catch_block_final split: sum.splits option.splits)

lemma narrate_final_details: "details (final s (narrate p d s)) = details s"
  by (simp add: narrate_def Let_def final_simps catch_block_final decode_final_details
      split: sum.splits option.splits)

lemma entry_run:
  "narration_entry p img s = Some (d, u) \<Longrightarrow> startAnalysis p img s = final u (narrate p d u)"
  by (auto simp: narration_entry_def startAnalysis_final startAnalysis_trace_def search_def Let_def
      final_simps split: sum.splits option.splits)

lemma entry_details: "narration_entry p img s = Some (d, u) \<Longrightarrow> details u = Some d"
  by (auto simp: narration_entry_def split: sum.splits option.splits)

lemma entry_status: "narration_entry p img s = Some (d, u) \<Longrightarrow> status u = GENERATING_AUDIO"
  by (auto simp: narration_entry_def split: sum.splits option.splits)

lemma no_entry_details: "narration_entry p img s = None \<Longrightarrow> details (startAnalysis p img s) = None"
  by (auto simp: narration_entry_def startAnalysis_final startAnalysis_trace_def search_def Let_def
      final_simps catch_block_final split: sum.splits option.splits)

lemma details_entry:
  "details (startAnalysis p img s) = Some d \<Longrightarrow> \<exists>u. narration_entry p img s = Some (d, u)"
proof (cases "narration_entry p img s")
  case None
  assume "details (startAnalysis p img s) = Some d"
  with no_entry_details[OF None] show ?thesis by simp
next
  case (Some du)
  assume a: "details (startAnalysis p img s) = Some d"
  obtain d' u where du: "du = (d', u)" by (cases du)
  with Some have e: "narration_entry p img s = Some (d', u)" by simp
  from entry_run[OF e] entry_details[OF e] a have "d' = d"
    by (simp add: narrate_final_details)
  with e show ?thesis by blast
qed

subsection \<open>What a run asks of the synthesis service\<close>

lemma identifyLandmark_tts:
  "identifyLandmark (p\<lparr>generateContent_tts := f\<rparr>) img = identifyLandmark p img"
  by (simp add: identifyLandmark_def getClient_def cong: sum.case_cong option.case_cong if_cong)

lemma getLandmarkDetails_tts:
  "getLandmarkDetails (p\<lparr>generateContent_tts := f\<rparr>) nm vd = getLandmarkDetails p nm vd"
  by (simp add: getLandmarkDetails_def getClient_def cong: sum.case_cong option.case_cong if_cong)

lemma decode_tts: "decode (p\<lparr>generateContent_tts := f\<rparr>) a ctx s = decode p a ctx s"
  by (simp add: decode_def cong: sum.case_cong option.case_cong if_cong)

lemma generateNarration_tts:
  "f t = generateContent_tts p t \<Longrightarrow>
   generateNarration (p\<lparr>generateContent_tts := f\<rparr>) t = generateNarration p t"
  by (simp add: generateNarration_def getClient_def cong: sum.case_cong option.case_cong if_cong)

lemma narrate_tts:
  "f (ttsText (description d)) = generateContent_tts p (ttsText (description d)) \<Longrightarrow>
   narrate (p\<lparr>generateContent_tts := f\<rparr>) d s = narrate p d s"
  by (simp add: narrate_def generateNarration_tts decode_tts cong: sum.case_cong option.case_cong if_cong)

lemma entry_tts:
  "narration_entry (p\<lparr>generateContent_tts := f\<rparr>) img s = narration_entry p img s"
  by (simp add: narration_entry_def identifyLandmark_tts getLandmarkDetails_tts
      cong: sum.case_cong option.case_cong if_cong)

lemma trace_tts:
  assumes "\<And>d u. narration_entry p img s = Some (d, u) \<Longrightarrow>
             f (ttsText (description d)) = generateContent_tts p (ttsText (description d))"
  shows "startAnalysis_trace (p\<lparr>generateContent_tts := f\<rparr>) img s = startAnalysis_trace p img s"
proof (cases "identifyLandmark p img")
  case (Inl e)
  then show ?thesis
    by (simp add: startAnalysis_trace_def identifyLandmark_tts)
next
  case (Inr v)
  show ?thesis
  proof (cases "get_property v (js ''name'')")
    case None
    with Inr show ?thesis
      by (simp add: startAnalysis_trace_def search_def identifyLandmark_tts Let_def)
  next
    case nm: (Some nm)
    show ?thesis
    proof (cases "get_property v (js ''visualDescription'')")
      case None
      with Inr nm show ?thesis
        by (simp add: startAnalysis_trace_def search_def identifyLandmark_tts Let_def)
    next
      case vd: (Some vd)
      show ?thesis
      proof (cases "getLandmarkDetails p nm vd")
        case (Inl e)
        with Inr nm vd show ?thesis
          by (simp add: startAnalysis_trace_def search_def identifyLandmark_tts
              getLandmarkDetails_tts Let_def)
      next
        case d: (Inr d)
        from Inr nm vd d obtain u where "narration_entry p img s = Some (d, u)"
          by (simp add: narration_entry_def)
        then have "f (ttsText (description d)) = generateContent_tts p (ttsText (description d))"
          by (rule assms)
        with Inr nm vd d show ?thesis
          by (simp add: startAnalysis_trace_def search_def identifyLandmark_tts
              getLandmarkDetails_tts narrate_tts Let_def)
      qed
    qed
  qed
qed

lemma run_tts_only:
  assumes "details (startAnalysis p img s) = Some d"
    and "f (ttsText (description d)) = generateContent_tts p (ttsText (description d))"
  shows "startAnalysis (p\<lparr>generateContent_tts := f\<rparr>) img s = startAnalysis p img s"
proof -
  have "f (ttsText (description d')) = generateContent_tts p (ttsText (description d'))"
    if "narration_entry p img s = Some (d', u)" for d' u
  proof -
    from entry_run[OF that] entry_details[OF that] assms(1) have "d' = d"
      by (simp add: narrate_final_details)
    with assms(2) show ?thesis by simp
  qed
  then show ?thesis
    by (simp add: startAnalysis_def trace_tts)
qed

lemma run_narration_rejected:
  assumes "details (startAnalysis p img s) = Some d"
    and "generateNarration p (ttsText (description d)) = Inl e"
    and "message_of e = Some m"
  shows "status (startAnalysis p img s) = ERROR \<and>
         error (startAnalysis p img s) =
           Some \<lparr>message = or_default m ''Something went wrong during analysis.''\<rparr>"
proof -
  from details_entry[OF assms(1)] obtain u where u: "narration_entry p img s = Some (d, u)"
    by blast
  from assms(2,3) have "final u (narrate p d u) =
      u\<lparr>error := Some \<lparr>message = or_default m ''Something went wrong during analysis.''\<rparr>,
        status := ERROR\<rparr>"
    by (simp add: narrate_def catch_block_final)
  with entry_run[OF u] show ?thesis by simp
qed

lemma decode_complete:
  assumes "status s \<noteq> COMPLETE" and "status (final s (decode p a ctx s)) = COMPLETE"
  shows "\<exists>raw buf. decodeBase64 p a = Inr raw \<and> decodeAudioData p raw ctx 24000 1 = Inr buf \<and>
           audioBuffer (final s (decode p a ctx s)) = Some buf"
  using assms
  by (auto simp: decode_def Let_def final_simps catch_block_final split: sum.splits option.splits)

lemma narrate_complete:
  assumes "status s \<noteq> COMPLETE" and "status (final s (narrate p d s)) = COMPLETE"
  shows "\<exists>a raw ctx buf. generateNarration p (ttsText (description d)) = Inr a \<and>
           decodeBase64 p a = Inr raw \<and> decodeAudioData p raw ctx 24000 1 = Inr buf \<and>
           audioBuffer (final s (narrate p d s)) = Some buf"
proof (cases "generateNarration p (ttsText (description d))")
  case (Inl e)
  with assms show ?thesis
    by (simp add: narrate_def catch_block_final split: option.splits)
next
  case (Inr a)
  show ?thesis
  proof (cases "audioContextRef s")
    case (Some ctx)
    with Inr assms decode_complete[of s p a ctx] show ?thesis
      by (simp add: narrate_def) blast
  next
    case None
    show ?thesis
    proof (cases "newAudioContext p 24000")
      case (Inl e)
      with None Inr assms show ?thesis
        by (simp add: narrate_def catch_block_final split: option.splits)
    next
      case ctx: (Inr ctx)
      with None Inr assms decode_complete[of "s\<lparr>audioContextRef := Some ctx\<rparr>" p a ctx]
      show ?thesis
        by (simp add: narrate_def Let_def final_simps) blast
    qed
  qed
qed

lemma run_complete_narrated:
  assumes "details (startAnalysis p img s) = Some d"
    and "status (startAnalysis p img s) = COMPLETE"
  shows "\<exists>a raw ctx buf. generateNarration p (ttsText (description d)) = Inr a \<and>
           decodeBase64 p a = Inr raw \<and> decodeAudioData p raw ctx 24000 1 = Inr buf \<and>
           audioBuffer (startAnalysis p img s) = Some buf"
proof -
  from details_entry[OF assms(1)] obtain u where u: "narration_entry p img s = Some (d, u)"
    by blast
  from entry_status[OF u] have "status u \<noteq> COMPLETE" by simp
  with narrate_complete[of u p d] assms(2) entry_run[OF u] show ?thesis by simp
qed

subsection \<open>Every state on the way is consistent\<close>

lemma final_in: "final s xs \<in> insert s (set xs)"
  by (simp add: final_def)

lemma catch_block_consistent:
  "status s \<noteq> COMPLETE \<Longrightarrow> t \<in> set (catch_block e s) \<Longrightarrow> consistent t"
  by (auto simp: catch_block_def consistent_def Let_def or_default_nonempty split: option.splits)

lemma decode_consistent:
  "status s = GENERATING_AUDIO \<Longrightarrow> landmark s \<noteq> None \<Longrightarrow> details s \<noteq> None \<Longrightarrow>
   t \<in> set (decode p a ctx s) \<Longrightarrow> consistent t"
  unfolding decode_def Let_def
  by (auto simp: consistent_def catch_block_def Let_def or_default_nonempty
      split: sum.splits option.splits)

lemma narrate_consistent:
  "status s = GENERATING_AUDIO \<Longrightarrow> landmark s \<noteq> None \<Longrightarrow> details s \<noteq> None \<Longrightarrow>
   t \<in> set (narrate p d s) \<Longrightarrow> consistent t"
  unfolding narrate_def Let_def
  by (auto simp: consistent_def[of "s\<lparr>audioContextRef := _\<rparr>"]
      split: sum.splits option.splits
      dest!: catch_block_consistent[rotated 1] decode_consistent[rotated 3])

lemma search_consistent:
  "status s = ANALYZING_IMAGE \<Longrightarrow> (idResult \<noteq> JNull \<longrightarrow> landmark s \<noteq> None) \<Longrightarrow>
   t \<in> set (search p idResult s) \<Longrightarrow> consistent t"
  unfolding search_def Let_def
  apply (cases "idResult = JNull")
   apply (auto simp: consistent_def catch_block_def Let_def or_default_nonempty)[1]
  apply (auto split: sum.splits option.splits
      dest!: narrate_consistent[rotated 3] catch_block_consistent[rotated 1])
  apply (auto simp: consistent_def)
  done

lemma trace_consistent:
  "status s \<noteq> COMPLETE \<Longrightarrow> status s \<noteq> ERROR \<Longrightarrow>
   t \<in> set (startAnalysis_trace p img s) \<Longrightarrow> consistent t"
  unfolding startAnalysis_trace_def Let_def
  apply (auto split: sum.splits
      dest!: search_consistent[rotated 2] catch_block_consistent[rotated 1])
  apply (auto simp: consistent_def)
  done

lemma startAnalysis_consistent: "consistent (startAnalysis p img s)"
proof -
  define s5 where "s5 = s\<lparr>error := None, landmark := None, details := None, audioBuffer := None,
      status := ANALYZING_IMAGE\<rparr>"
  have s5: "consistent s5" "status s5 = ANALYZING_IMAGE"
    by (simp_all add: s5_def consistent_def)
  show ?thesis
  proof (cases "identifyLandmark p img")
    case (Inl e)
    then have "startAnalysis p img s = final s5 (catch_block e s5)"
      by (simp add: startAnalysis_final startAnalysis_trace_def Let_def final_simps s5_def)
    moreover have "consistent t" if "t \<in> insert s5 (set (catch_block e s5))" for t
      using that s5 catch_block_consistent[of s5 t e] by auto
    ultimately show ?thesis using final_in by metis
  next
    case (Inr v)
    define s6 where "s6 = s5\<lparr>landmark := (if v = JNull then None else Some v)\<rparr>"
    have s6: "consistent s6" "status s6 = ANALYZING_IMAGE" "v \<noteq> JNull \<longrightarrow> landmark s6 \<noteq> None"
      by (simp_all add: s6_def s5_def consistent_def)
    from Inr have "startAnalysis p img s = final s6 (search p v s6)"
      by (simp add: startAnalysis_final startAnalysis_trace_def Let_def final_simps s5_def s6_def)
    moreover have "consistent t" if "t \<in> insert s6 (set (search p v s6))" for t
      using that s6 search_consistent[of s6 v t p] by auto
    ultimately show ?thesis using final_in by metis
  qed
qed

lemma handleFileSelect_consistent:
  "status s = IDLE \<Longrightarrow> t \<in> set (handleFileSelect p fl s) \<Longrightarrow> consistent t"
  by (cases fl)
     (auto simp: handleFileSelect_def onload_def Let_def consistent_def[of "s\<lparr>image_s := _\<rparr>"]
      dest!: trace_consistent[rotated 2])

lemma toggleAudio_consistent: "consistent s \<Longrightarrow> consistent (toggleAudio s)"
  by (auto simp: toggleAudio_def consistent_def split: option.splits)

lemma onended_consistent: "consistent s \<Longrightarrow> consistent (onended s)"
  by (simp add: onended_def consistent_def)

lemma resetApp_consistent: "consistent (resetApp s)"
  by (simp add: resetApp_def consistent_def)

lemma reachable_consistent: "reachable s \<Longrightarrow> consistent s"
proof (induction rule: reachable.induct)
  case r_init
  show ?case by (simp add: initial_state_def consistent_def)
next
  case (r_select s t p fl)
  then show ?case by (blast intro: handleFileSelect_consistent)
next
  case (r_toggle s)
  then show ?case by (simp add: toggleAudio_consistent)
next
  case (r_ended s)
  then show ?case by (simp add: onended_consistent)
next
  case (r_reset s)
  show ?case by (rule resetApp_consistent)
qed

subsection \<open>A run settles when what is thrown is an object\<close>

lemma message_of_None: "(message_of e = None) = (e = Nullish)"
  by (cases e) simp_all

lemma catch_block_settles:
  "message_of e \<noteq> None \<Longrightarrow> status (final s (catch_block e s)) = ERROR"
  by (auto simp: catch_block_final)

lemma identifyLandmark_object:
  "throws_objects p \<Longrightarrow> identifyLandmark p img = Inl e \<Longrightarrow> message_of e \<noteq> None"
  by (auto simp: identifyLandmark_def getClient_def throws_objects_def message_of_None
      simp del: not_None_eq split: sum.splits option.splits if_splits)

lemma getLandmarkDetails_object:
  "throws_objects p \<Longrightarrow> getLandmarkDetails p nm vd = Inl e \<Longrightarrow> message_of e \<noteq> None"
  by (auto simp: getLandmarkDetails_def getClient_def throws_objects_def message_of_None
      simp del: not_None_eq split: sum.splits option.splits if_splits)

lemma generateNarration_object:
  "throws_objects p \<Longrightarrow> generateNarration p t = Inl e \<Longrightarrow> message_of e \<noteq> None"
  by (auto simp: generateNarration_def getClient_def throws_objects_def message_of_None
      simp del: not_None_eq split: sum.splits option.splits if_splits)

lemma platform_object:
  assumes "throws_objects p"
  shows "newAudioContext p r = Inl e \<Longrightarrow> message_of e \<noteq> None"
    and "decodeBase64 p b = Inl e \<Longrightarrow> message_of e \<noteq> None"
    and "decodeAudioData p raw ctx r c = Inl e \<Longrightarrow> message_of e \<noteq> None"
  using assms by (auto simp: throws_objects_def message_of_None simp del: not_None_eq)

lemma decode_settles: "throws_objects p \<Longrightarrow> ended (final s (decode p a ctx s))"
  by (auto simp: decode_def Let_def final_simps ended_def catch_block_settles
      dest: platform_object split: sum.splits)

lemma narrate_settles: "throws_objects p \<Longrightarrow> ended (final s (narrate p d s))"
  by (auto simp: narrate_def Let_def final_simps decode_settles
      simp: ended_def[of "final _ (catch_block _ _)"] catch_block_settles
      dest: platform_object generateNarration_object split: sum.splits option.splits)

lemma search_settles: "throws_objects p \<Longrightarrow> ended (final s (search p v s))"
  by (auto simp: search_def Let_def final_simps narrate_settles
      simp: ended_def[of "final _ (catch_block _ _)"] catch_block_settles
      dest: getLandmarkDetails_object split: sum.splits option.splits)

lemma startAnalysis_settles: "throws_objects p \<Longrightarrow> ended (startAnalysis p img s)"
  by (auto simp: startAnalysis_final startAnalysis_trace_def Let_def final_simps search_settles
      simp: ended_def[of "final _ (catch_block _ _)"] catch_block_settles
      dest: identifyLandmark_object split: sum.splits option.splits)

subsection \<open>Runs on the concrete platforms\<close>

lemmas json_eval = JSON_parse_def dq_def start_value_def is_ws_def code_def after_value_def
  is_digit_def escape_code_def js_def

lemma tower_json_parsed:
  "JSON_parse tower_json =
     Some (JObject [(js ''name'', JString (js ''Eiffel Tower'')),
                    (js ''visualDescription'', JString (js ''An iron tower''))])"
  by (simp add: tower_json_def json_eval)

lemma tower_json_nonempty: "tower_json \<noteq> []"
  by (simp add: tower_json_def)

lemma tower_identified:
  "identifyLandmark tower_platform img =
     Inr (JObject [(js ''name'', JString (js ''Eiffel Tower'')),
                   (js ''visualDescription'', JString (js ''An iron tower''))])"
  by (simp add: identifyLandmark_def getClient_def tower_platform_def answering_def text_response_def
      tower_json_parsed tower_json_nonempty)

lemmas details_eval = getLandmarkDetails_def getClient_def answering_def
  grounded_response_def cite_def sources_of_def chunks_of_def first_of_def nth_opt_def
  toSource_def or_default_def uniqueSources_def Map_new_def Map_values_def

lemma tower_details:
  "getLandmarkDetails tower_platform nm vd =
     Inr \<lparr> description = ''Built for the 1889 fair.'',
           sources = [\<lparr>title = ''Second'', uri = ''a''\<rparr>, \<lparr>title = ''Guide'', uri = ''b''\<rparr>,
                      \<lparr>title = ''Source'', uri = ''c''\<rparr>] \<rparr>"
  by (simp add: details_eval tower_platform_def tower_search_def tower_chunks_def)

lemmas narration_eval = generateNarration_def getClient_def answering_def parts_response_def
  audio_part_def text_part_def audioData_def first_of_def nth_opt_def

lemma tower_narration: "generateNarration tower_platform txt = Inr ''UklGRg==''"
  by (simp add: narration_eval tower_platform_def)

lemma tower_decoders:
  "newAudioContext tower_platform r = Inr \<lparr>sampleRate = r\<rparr>"
  "decodeBase64 tower_platform b = Inr [0, 1, 255, 127]"
  "decodeAudioData tower_platform raw ctx r c = Inr [256, 32767]"
  by (simp_all add: tower_platform_def answering_def)

lemma tower_payload: "base64Data ''data:image/png;base64,AAAA'' = Some ''AAAA''"
  by (simp add: base64Data_def nth_opt_def)

lemma tower_run:
  "last (handleFileSelect tower_platform (Some ''data:image/png;base64,AAAA'') initial_state) =
     tower_result"
  by (simp add: handleFileSelect_def onload_def startAnalysis_trace_def search_def narrate_def
      decode_def Let_def tower_payload tower_identified tower_details tower_narration tower_decoders
      initial_state_def tower_result_def js_def)

lemma tower_reachable: "reachable tower_result"
proof -
  have "handleFileSelect tower_platform (Some ''data:image/png;base64,AAAA'') initial_state \<noteq> []"
    by (simp add: handleFileSelect_def onload_def Let_def)
  then have "tower_result \<in>
      set (handleFileSelect tower_platform (Some ''data:image/png;base64,AAAA'') initial_state)"
    using last_in_set tower_run by metis
  moreover have "status initial_state = IDLE"
    by (simp add: initial_state_def)
  ultimately show ?thesis
    using r_init r_select by blast
qed

lemma tower_throws_objects: "throws_objects tower_platform"
  by (simp add: throws_objects_def tower_platform_def answering_def)

lemma nullish_run:
  "startAnalysis nullish_platform img initial_state = initial_state\<lparr>status := ANALYZING_IMAGE\<rparr>"
  by (simp add: startAnalysis_def startAnalysis_trace_def Let_def identifyLandmark_def getClient_def
      nullish_platform_def tower_platform_def answering_def catch_block_def initial_state_def)

lemma narrating_identified:
  "identifyLandmark (narrating d g) img =
     Inr (JObject [(js ''name'', JString (js ''Eiffel Tower'')),
                   (js ''visualDescription'', JString (js ''An iron tower''))])"
  by (simp add: identifyLandmark_def getClient_def narrating_def answering_def text_response_def
      tower_json_parsed tower_json_nonempty)

lemma narrating_details:
  "d \<noteq> [] \<Longrightarrow> getLandmarkDetails (narrating d g) nm vd = Inr \<lparr> description = d, sources = [] \<rparr>"
  by (simp add: details_eval narrating_def)

lemma narrating_run_details:
  "d \<noteq> [] \<Longrightarrow>
   details (startAnalysis (narrating d g) img s) = Some \<lparr> description = d, sources = [] \<rparr>"
proof -
  assume d: "d \<noteq> []"
  then obtain u where
    "narration_entry (narrating d g) img s = Some (\<lparr> description = d, sources = [] \<rparr>, u)"
    by (simp add: narration_entry_def narrating_identified narrating_details js_def)
  from entry_run[OF this] entry_details[OF this] show ?thesis
    by (simp add: narrate_final_details)
qed

lemma narrating_narration:
  "generateNarration (narrating d g) t =
     (case g t of
        Inl e \<Rightarrow> Inl e
      | Inr r \<Rightarrow>
          (case audioData r of
             None \<Rightarrow> Inl (Error ''No audio generated'')
           | Some a \<Rightarrow> if a = [] then Inl (Error ''No audio generated'') else Inr a))"
  by (simp add: generateNarration_def getClient_def narrating_def answering_def)

lemma rejecting_only_rejects:
  "generateNarration (narrating d (rejecting_only t)) t = Inl (Rejection (Some ''quota exceeded''))"
  by (simp add: narrating_narration rejecting_only_def)

lemma rejecting_only_answers:
  "x \<noteq> t \<Longrightarrow> generateNarration (narrating d (rejecting_only t)) x = Inr ''UklGRg=='' "
  by (simp add: narrating_narration rejecting_only_def parts_response_def audio_part_def
      audioData_def first_of_def nth_opt_def)

lemma ttsText_eq: "ttsText d = (if 500 < length d then take 500 d @ ''...'' else d)"
  by (simp add: ttsText_def ttsText_units_def)

lemma ttsText_map: "map g (ttsText d) = ttsText_units (map g ''...'') (map g d)"
  by (simp add: ttsText_def ttsText_units_def take_map)

section \<open>Properties of the services and of the file reader\<close>

subsection \<open>Splitting at commas\<close>

lemma split_no_sep: "sep \<notin> set s \<Longrightarrow> String_split sep s = [s]"
  by (induction s) auto

lemma split_at_first: "sep \<notin> set h \<Longrightarrow> String_split sep (h @ sep # r) = h # String_split sep r"
  by (induction h) auto

lemma split_nonempty: "String_split sep s \<noteq> []"
  by (induction s) (auto split: list.splits)

lemma after_first_comma_at: "CHR '','' \<notin> set h \<Longrightarrow> after_first_comma (h @ CHR '','' # r) = Some r"
  by (induction h) (auto simp: after_first_comma_def)

lemma after_first_comma_none: "CHR '','' \<notin> set s \<Longrightarrow> after_first_comma s = None"
  by (induction s) (auto simp: after_first_comma_def)

lemma handleFileSelect_last:
  "last (handleFileSelect p (Some result) s) =
     startAnalysis p (base64Data result) (s\<lparr>image_s := Some result\<rparr>)"
  by (simp add: handleFileSelect_def onload_def startAnalysis_def Let_def)

subsection \<open>Optional chaining\<close>

lemma first_of_simps:
  "first_of None = None" "first_of (Some []) = None" "first_of (Some (x # xs)) = Some x"
  by (simp_all add: first_of_def nth_opt_def)


subsection \<open>The map of sources\<close>

lemma keys_Map_set:
  "map fst (Map_set m k v) = (if k \<in> set (map fst m) then map fst m else map fst m @ [k])"
  by (induction m k v rule: Map_set.induct) auto

lemma set_Map_set: "set (Map_set m k v) \<subseteq> insert (k, v) (set m)"
  by (induction m k v rule: Map_set.induct) auto

lemma map_of_Map_set: "map_of (Map_set m k v) = (map_of m)(k \<mapsto> v)"
  by (induction m k v rule: Map_set.induct) auto

lemma keys_foldl:
  "map fst (foldl Map_step m es) =
     map fst m @ keep_first id (filter (\<lambda>k. k \<notin> set (map fst m)) (map fst es))"
proof (induction es arbitrary: m)
  case Nil
  show ?case by simp
next
  case (Cons e es)
  obtain k v where e: "e = (k, v)" by (cases e)
  show ?case
  proof (cases "k \<in> set (map fst m)")
    case True
    with Cons[of "Map_set m k v"] e show ?thesis
      by (simp add: keys_Map_set)
  next
    case False
    have "(\<lambda>x. x \<notin> fst ` set m \<and> x \<noteq> k) = (\<lambda>x. x \<noteq> k \<and> x \<notin> fst ` set m)"
      by auto
    with False Cons[of "Map_set m k v"] e show ?thesis
      by (simp add: keys_Map_set)
  qed
qed

lemma set_foldl: "set (foldl Map_step m es) \<subseteq> set m \<union> set es"
proof (induction es arbitrary: m)
  case Nil
  show ?case by simp
next
  case (Cons e es)
  obtain k v where e: "e = (k, v)" by (cases e)
  from Cons[of "Map_set m k v"] set_Map_set[of m k v] e show ?case by auto
qed

lemma map_of_foldl: "map_of (foldl Map_step m es) = map_of m ++ map_of (rev es)"
proof (induction es arbitrary: m)
  case Nil
  show ?case by simp
next
  case (Cons e es)
  obtain k v where e: "e = (k, v)" by (cases e)
  have "map_of (foldl Map_step (Map_set m k v) es) = map_of (Map_set m k v) ++ map_of (rev es)"
    by (rule Cons)
  then show ?case
    unfolding e by (simp add: map_of_Map_set)
qed

lemma keys_Map_new: "map fst (Map_new es) = keep_first id (map fst es)"
  by (simp add: Map_new_def keys_foldl)

lemma set_Map_new: "set (Map_new es) \<subseteq> set es"
  using set_foldl[of "[]" es] by (simp add: Map_new_def)

lemma map_of_Map_new: "map_of (Map_new es) = map_of (rev es)"
  by (simp add: Map_new_def map_of_foldl)

lemma set_keep_first: "set (keep_first id xs) = set xs"
  by (induction "id :: 'a \<Rightarrow> 'a" xs rule: keep_first.induct) auto

lemma distinct_keep_first: "distinct (keep_first id xs)"
  by (induction "id :: 'a \<Rightarrow> 'a" xs rule: keep_first.induct) (auto simp: set_keep_first)

lemma map_keep_first: "map f (keep_first f xs) = keep_first id (map f xs)"
  by (induction f xs rule: keep_first.induct) (simp_all add: filter_map comp_def)

lemma map_of_last:
  "map_of (rev (map (\<lambda>s. (f s, s)) xs)) k = Some s \<Longrightarrow> s = last (filter (\<lambda>t. f t = k) xs) \<and> f s = k"
  by (induction xs rule: rev_induct) (auto split: if_splits)

lemma uniqueSources_keys: "map uri (uniqueSources srcs) = map uri (dedup_first_wins srcs)"
proof -
  let ?M = "Map_new (map (\<lambda>item. (uri item, item)) srcs)"
  have "\<forall>e \<in> set ?M. fst e = uri (snd e)"
    using set_Map_new[of "map (\<lambda>item. (uri item, item)) srcs"] by auto
  then have "map uri (map snd ?M) = map fst ?M"
    by simp
  then show ?thesis
    by (simp add: uniqueSources_def Map_values_def dedup_first_wins_def keys_Map_new
        map_keep_first comp_def)
qed

lemma uniqueSources_distinct: "distinct (map uri (uniqueSources srcs))"
  by (simp add: uniqueSources_keys dedup_first_wins_def map_keep_first distinct_keep_first)

lemma uniqueSources_last:
  assumes "s \<in> set (uniqueSources srcs)"
  shows "s = last (filter (\<lambda>t. uri t = uri s) srcs)"
proof -
  let ?es = "map (\<lambda>item. (uri item, item)) srcs"
  from assms obtain k where k: "(k, s) \<in> set (Map_new ?es)"
    by (auto simp: uniqueSources_def Map_values_def)
  have "distinct (map fst (Map_new ?es))"
    by (simp add: keys_Map_new distinct_keep_first)
  with k have "map_of (Map_new ?es) k = Some s" by simp
  then have "map_of (rev ?es) k = Some s" by (simp add: map_of_Map_new)
  then have "s = last (filter (\<lambda>t. uri t = k) srcs)" and "uri s = k"
    using map_of_last[of uri srcs k s] by blast+
  then show ?thesis by simp
qed

lemma uniqueSources_subset: "set (uniqueSources srcs) \<subseteq> set srcs"
  using set_Map_new[of "map (\<lambda>item. (uri item, item)) srcs"]
  by (auto simp: uniqueSources_def Map_values_def)

lemma uniqueSources_uris: "uri ` set (uniqueSources srcs) = uri ` set srcs"
proof -
  have "set (map uri (uniqueSources srcs)) = set (map uri srcs)"
    by (simp only: uniqueSources_keys dedup_first_wins_def map_keep_first set_keep_first)
  then show ?thesis by simp
qed

lemma getLandmarkDetails_ok:
  "getClient p = Inr () \<Longrightarrow> generateContent_search p nm vd = Inr r \<Longrightarrow>
   getLandmarkDetails p nm vd =
     Inr \<lparr> description = or_default (response_text r) ''Could not retrieve details.'',
           sources = uniqueSources (sources_of r) \<rparr>"
  by (simp add: getLandmarkDetails_def)

lemma toSource_kept:
  assumes "uri (toSource c) \<noteq> []"
  shows "\<exists>w. web c = Some w \<and> web_uri w = Some (uri (toSource c)) \<and>
            title (toSource c) =
              (case web_title w of None \<Rightarrow> ''Source'' | Some t \<Rightarrow> if t = [] then ''Source'' else t)"
  using assms by (auto simp: toSource_def or_default_def split: option.splits if_splits)

lemma toSource_uri: "web c = Some w \<Longrightarrow> web_uri w = Some u \<Longrightarrow> u \<noteq> [] \<Longrightarrow> uri (toSource c) = u"
  by (simp add: toSource_def or_default_def)

subsection \<open>The data URI of the reader\<close>

lemma base64_no_comma: "list_all base64_char b \<Longrightarrow> CHR '','' \<notin> set b"
  by (induction b) (auto simp: base64_char_def code_def)

lemma single_comma:
  assumes "CHR '','' \<notin> set h" and "CHR '','' \<notin> set b"
  shows "base64Data (h @ CHR '','' # b) = Some b" and "after_first_comma (h @ CHR '','' # b) = Some b"
  using assms
  by (simp_all add: base64Data_def split_at_first split_no_sep nth_opt_def after_first_comma_at)

lemma run_identification_rejected:
  assumes "getClient p = Inr ()" and "generateContent_vision p img = Inl e"
    and "message_of e = Some m"
  shows "status (startAnalysis p img s) = ERROR \<and>
         error (startAnalysis p img s) =
           Some \<lparr>message = or_default m ''Something went wrong during analysis.''\<rparr>"
proof -
  from assms(1,2) have "identifyLandmark p img = Inl e"
    by (simp add: identifyLandmark_def)
  with assms(3) show ?thesis
    by (simp add: startAnalysis_final startAnalysis_trace_def Let_def final_simps catch_block_final)
qed

section \<open>The claims\<close>

text \<open>
  C1, as the specification states it, fails. Where two citations share a uri, the map is
  built by inserting the entries in order, so the repeated key keeps its place and takes
  the later entry: the title retained is the last one, not the first.
\<close>

theorem last_title_wins_counterexample:
  "sources_of tower_search =
     [\<lparr>title = ''First'', uri = ''a''\<rparr>, \<lparr>title = ''Guide'', uri = ''b''\<rparr>,
      \<lparr>title = ''Second'', uri = ''a''\<rparr>, \<lparr>title = ''Source'', uri = ''c''\<rparr>] \<and>
   dedup_first_wins (sources_of tower_search) =
     [\<lparr>title = ''First'', uri = ''a''\<rparr>, \<lparr>title = ''Guide'', uri = ''b''\<rparr>,
      \<lparr>title = ''Source'', uri = ''c''\<rparr>] \<and>
   getLandmarkDetails tower_platform None None =
     Inr \<lparr> description = ''Built for the 1889 fair.'',
           sources = [\<lparr>title = ''Second'', uri = ''a''\<rparr>, \<lparr>title = ''Guide'', uri = ''b''\<rparr>,
                      \<lparr>title = ''Source'', uri = ''c''\<rparr>] \<rparr>"
  by (simp add: tower_details)
     (simp add: details_eval tower_search_def tower_chunks_def dedup_first_wins_def)

text \<open>
  C1, amended. The sources returned by \<open>getLandmarkDetails\<close> hold each uri once, in the
  order in which the uris are first seen (the uris are those of a deduplication in which
  the first occurrence wins); the entry retained for a uri, and so its title, is the last
  entry with that uri. Uris \<open>[a, b, a, c]\<close> give \<open>[a, b, c]\<close>.
\<close>

theorem sources_deduplicated:
  assumes "getClient p = Inr ()" and "generateContent_search p nm vd = Inr r"
  shows
  "(\<exists>d. getLandmarkDetails p nm vd = Inr d \<and>
       map uri (sources d) = map uri (dedup_first_wins (sources_of r)) \<and>
       distinct (map uri (sources d)) \<and>
       (\<forall>s \<in> set (sources d). s = last (filter (\<lambda>t. uri t = uri s) (sources_of r))) \<and>
       (\<forall>a b c. distinct [a, b, c] \<and> map uri (sources_of r) = [a, b, a, c] \<longrightarrow>
          map uri (sources d) = [a, b, c])) \<and>
   map uri (uniqueSources srcs) = map uri (dedup_first_wins srcs) \<and>
   (\<forall>s \<in> set (uniqueSources srcs). s = last (filter (\<lambda>t. uri t = uri s) srcs))"
proof -
  let ?d = "\<lparr> description = or_default (response_text r) ''Could not retrieve details.'',
              sources = uniqueSources (sources_of r) \<rparr>"
  have d: "getLandmarkDetails p nm vd = Inr ?d"
    using assms by (rule getLandmarkDetails_ok)
  have s: "sources ?d = uniqueSources (sources_of r)"
    by simp
  have abc: "\<forall>a b c. distinct [a, b, c] \<and> map uri (sources_of r) = [a, b, a, c] \<longrightarrow>
          map uri (uniqueSources (sources_of r)) = [a, b, c]"
    by (auto simp: uniqueSources_keys dedup_first_wins_def map_keep_first)
  have lst: "\<forall>s \<in> set (uniqueSources xs). s = last (filter (\<lambda>t. uri t = uri s) xs)" for xs
    using uniqueSources_last by blast
  have "\<exists>d. getLandmarkDetails p nm vd = Inr d \<and>
       map uri (sources d) = map uri (dedup_first_wins (sources_of r)) \<and>
       distinct (map uri (sources d)) \<and>
       (\<forall>s \<in> set (sources d). s = last (filter (\<lambda>t. uri t = uri s) (sources_of r))) \<and>
       (\<forall>a b c. distinct [a, b, c] \<and> map uri (sources_of r) = [a, b, a, c] \<longrightarrow>
          map uri (sources d) = [a, b, c])"
    unfolding d
    using abc lst[of "sources_of r"] uniqueSources_keys[of "sources_of r"]
      uniqueSources_distinct[of "sources_of r"]
    by (intro exI[of _ ?d]) (simp only: s simp_thms)
  with lst[of srcs] uniqueSources_keys[of srcs] show ?thesis
    by blast
qed

theorem sources_deduplicated_witness:
  "getClient tower_platform = Inr () \<and>
   generateContent_search tower_platform None None = Inr tower_search \<and>
   map uri (sources_of tower_search) = [''a'', ''b'', ''a'', ''c''] \<and>
   (\<exists>d. getLandmarkDetails tower_platform None None = Inr d \<and>
        map uri (sources d) = [''a'', ''b'', ''c''] \<and>
        map title (sources d) = [''Second'', ''Guide'', ''Source''])"
proof -
  have a: "getClient tower_platform = Inr ()"
    by (simp add: getClient_def tower_platform_def answering_def)
  have b: "generateContent_search tower_platform None None = Inr tower_search"
    by (simp add: tower_platform_def answering_def)
  have u: "map uri (sources_of tower_search) = [''a'', ''b'', ''a'', ''c'']"
    by (simp add: details_eval tower_search_def tower_chunks_def)
  from sources_deduplicated [OF a b] obtain d where
    d: "getLandmarkDetails tower_platform None None = Inr d" and
    abc: "\<forall>a b c. distinct [a, b, c] \<and> map uri (sources_of tower_search) = [a, b, a, c] \<longrightarrow>
          map uri (sources d) = [a, b, c]"
    by blast
  from abc u have "map uri (sources d) = [''a'', ''b'', ''c'']" by simp
  moreover from d have "map title (sources d) = [''Second'', ''Guide'', ''Source'']"
    by (auto simp: tower_details)
  ultimately show ?thesis using a b u d by simp
qed

text \<open>
  C2, as the specification states it, fails: a reset from the error view leaves the stored
  error where it is. \<open>resetApp\<close> never calls \<^verbatim>\<open>setError\<close>; the error is cleared by the next
  \<open>startAnalysis\<close>, and it is shown in the error view only.
\<close>

theorem reset_keeps_error_counterexample:
  "status failed_state \<noteq> IDLE \<and> error (resetApp failed_state) \<noteq> None"
  by (simp add: failed_state_def resetApp_def initial_state_def)

text \<open>
  C2, amended. From every state that is not idle, reset leads to the idle status with no
  image, no analysis result and no details, with \<open>isPlaying\<close> false and the source node,
  if there is one, stopped; the stored error is left as it was.
\<close>

theorem reset_returns_to_idle:
  "status s \<noteq> IDLE \<Longrightarrow>
   status (resetApp s) = IDLE \<and> image_s (resetApp s) = None \<and> landmark (resetApp s) = None \<and>
   details (resetApp s) = None \<and> isPlaying (resetApp s) = False \<and>
   (\<forall>n. sourceNodeRef (resetApp s) = Some n \<longrightarrow> \<not> playing n) \<and>
   error (resetApp s) = error s"
  by (auto simp: resetApp_def stop_def)

theorem reset_returns_to_idle_witness:
  "status playing_state \<noteq> IDLE \<and> status (resetApp playing_state) = IDLE \<and>
   sourceNodeRef (resetApp playing_state) = Some \<lparr>buffer = [256, 32767], playing = False\<rparr> \<and>
   isPlaying (resetApp playing_state) = False"
proof -
  have h: "status playing_state \<noteq> IDLE"
    by (simp add: playing_state_def initial_state_def)
  have n: "sourceNodeRef (resetApp playing_state) = Some \<lparr>buffer = [256, 32767], playing = False\<rparr>"
    by (simp add: playing_state_def initial_state_def resetApp_def stop_def)
  from reset_returns_to_idle [OF h] h n show ?thesis by simp
qed

text \<open>
  C3, as the specification states it, fails. Text that is valid JSON but does not match
  the two-field schema is not rejected: the cast to \<^verbatim>\<open>LandmarkAnalysisResult\<close> checks
  nothing, and the schema is only sent to the model with the request. For the text
  \<^verbatim>\<open>{}\<close> the empty object is returned.
\<close>

theorem unvalidated_json_counterexample:
  "generateContent_vision empty_object_platform (Some ''AAAA'') = Inr (text_response ''{}'') \<and>
   JSON_parse ''{}'' = Some (JObject []) \<and>
   \<not> matches_schema (JObject []) \<and>
   identifyLandmark empty_object_platform (Some ''AAAA'') = Inr (JObject [])"
  by (simp add: identifyLandmark_def getClient_def empty_object_platform_def answering_def
      text_response_def json_eval matches_schema_def is_string_def)

text \<open>
  C3, amended. Given the response of the vision model, \<open>identifyLandmark\<close> fails with the
  error \<^verbatim>\<open>No response from vision model\<close> when the response has no text (none, or the
  empty string), fails with the parse error of \<^verbatim>\<open>JSON.parse\<close> when the text is not valid
  JSON, and returns the parsed value for every text that is valid JSON, whether or not
  the value matches the schema.
\<close>

theorem identifyLandmark_outcomes:
  assumes "getClient p = Inr ()" and "generateContent_vision p img = Inr r"
  shows
  "((response_text r = None \<or> response_text r = Some []) \<longrightarrow>
      identifyLandmark p img = Inl (Error ''No response from vision model'')) \<and>
   (\<forall>t. response_text r = Some t \<and> t \<noteq> [] \<and> JSON_parse t = None \<longrightarrow>
      identifyLandmark p img = Inl (SyntaxError (syntaxErrorText p t))) \<and>
   (\<forall>t v. response_text r = Some t \<and> t \<noteq> [] \<and> JSON_parse t = Some v \<longrightarrow>
      identifyLandmark p img = Inr v)"
  using assms by (auto simp: identifyLandmark_def)

theorem identifyLandmark_outcomes_witness:
  "getClient tower_platform = Inr () \<and>
   generateContent_vision tower_platform (Some ''AAAA'') = Inr (text_response tower_json) \<and>
   tower_json \<noteq> [] \<and>
   JSON_parse tower_json =
     Some (JObject [(js ''name'', JString (js ''Eiffel Tower'')),
                    (js ''visualDescription'', JString (js ''An iron tower''))]) \<and>
   matches_schema (JObject [(js ''name'', JString (js ''Eiffel Tower'')),
                    (js ''visualDescription'', JString (js ''An iron tower''))]) \<and>
   identifyLandmark tower_platform (Some ''AAAA'') =
     Inr (JObject [(js ''name'', JString (js ''Eiffel Tower'')),
                   (js ''visualDescription'', JString (js ''An iron tower''))])"
proof -
  have a: "getClient tower_platform = Inr ()"
    by (simp add: getClient_def tower_platform_def answering_def)
  have b: "generateContent_vision tower_platform (Some ''AAAA'') = Inr (text_response tower_json)"
    by (simp add: tower_platform_def answering_def)
  have c: "response_text (text_response tower_json) = Some tower_json"
    by (simp add: text_response_def)
  have m: "matches_schema (JObject [(js ''name'', JString (js ''Eiffel Tower'')),
                    (js ''visualDescription'', JString (js ''An iron tower''))])"
    by (simp add: matches_schema_def is_string_def js_def)
  from identifyLandmark_outcomes [OF a b] a b c m tower_json_parsed tower_json_nonempty
  show ?thesis by simp
qed

text \<open>
  C4. The text handed to narration synthesis is the description when that has at most 500
  characters, and its first 500 characters followed by three dots when it is longer: 800
  characters become 500 and the dots, 400 characters are sent as they are. That this text
  and no other is handed over is said of the run itself: when a run has stored details,
  replacing the synthesis service by any service that answers this one text alike leaves
  the run as it was; a rejection of this text is the error with which the run ends; and a
  run that completes holds the audio decoded from the answer to this text. The
  expression only counts the units of the string, so it commutes with every recoding of
  them.
\<close>

theorem narration_text_truncated:
  "ttsText d = (if 500 < length d then take 500 d @ ''...'' else d) \<and>
   (length d = 800 \<longrightarrow> ttsText d = take 500 d @ ''...'' \<and> length (ttsText d) = 503) \<and>
   (length d = 400 \<longrightarrow> ttsText d = d) \<and>
   map g (ttsText d) = ttsText_units (map g ''...'') (map g d) \<and>
   (\<forall>txt. details (startAnalysis p img s) = Some dr \<and>
          txt = (if 500 < length (description dr) then take 500 (description dr) @ ''...''
                 else description dr) \<longrightarrow>
      (f txt = generateContent_tts p txt \<longrightarrow>
         startAnalysis (p\<lparr>generateContent_tts := f\<rparr>) img s = startAnalysis p img s) \<and>
      (\<forall>e m. generateNarration p txt = Inl e \<and> message_of e = Some m \<longrightarrow>
         status (startAnalysis p img s) = ERROR \<and>
         error (startAnalysis p img s) =
           Some \<lparr>message = or_default m ''Something went wrong during analysis.''\<rparr>) \<and>
      (status (startAnalysis p img s) = COMPLETE \<longrightarrow>
         (\<exists>a raw ctx buf. generateNarration p txt = Inr a \<and> decodeBase64 p a = Inr raw \<and>
            decodeAudioData p raw ctx 24000 1 = Inr buf \<and>
            audioBuffer (startAnalysis p img s) = Some buf)))"
proof -
  have run: "(f (ttsText (description dr)) = generateContent_tts p (ttsText (description dr)) \<longrightarrow>
         startAnalysis (p\<lparr>generateContent_tts := f\<rparr>) img s = startAnalysis p img s) \<and>
      (\<forall>e m. generateNarration p (ttsText (description dr)) = Inl e \<and> message_of e = Some m \<longrightarrow>
         status (startAnalysis p img s) = ERROR \<and>
         error (startAnalysis p img s) =
           Some \<lparr>message = or_default m ''Something went wrong during analysis.''\<rparr>) \<and>
      (status (startAnalysis p img s) = COMPLETE \<longrightarrow>
         (\<exists>a raw ctx buf. generateNarration p (ttsText (description dr)) = Inr a \<and>
            decodeBase64 p a = Inr raw \<and> decodeAudioData p raw ctx 24000 1 = Inr buf \<and>
            audioBuffer (startAnalysis p img s) = Some buf))"
    if "details (startAnalysis p img s) = Some dr"
    using run_tts_only[OF that] run_narration_rejected[OF that] run_complete_narrated[OF that]
    by blast
  have cut: "ttsText (description dr) =
      (if 500 < length (description dr) then take 500 (description dr) @ ''...''
       else description dr)"
    by (rule ttsText_eq)
  have "length d = 800 \<longrightarrow> ttsText d = take 500 d @ ''...'' \<and> length (ttsText d) = 503"
    by (simp add: ttsText_eq)
  moreover have "length d = 400 \<longrightarrow> ttsText d = d"
    by (simp add: ttsText_eq)
  ultimately show ?thesis
    using run ttsText_eq[of d] ttsText_map[of g d] unfolding cut by blast
qed

theorem narration_text_truncated_witness:
  "details (startAnalysis rejecting_cut_800 (Some ''AAAA'') initial_state) =
     Some \<lparr> description = replicate 800 CHR ''x'', sources = [] \<rparr> \<and>
   generateNarration rejecting_cut_800 (replicate 500 CHR ''x'' @ ''...'') =
     Inl (Rejection (Some ''quota exceeded'')) \<and>
   generateNarration rejecting_cut_800 (replicate 800 CHR ''x'') = Inr ''UklGRg=='' \<and>
   status (startAnalysis rejecting_cut_800 (Some ''AAAA'') initial_state) = ERROR \<and>
   error (startAnalysis rejecting_cut_800 (Some ''AAAA'') initial_state) =
     Some \<lparr>message = ''quota exceeded''\<rparr>"
proof -
  have d: "details (startAnalysis rejecting_cut_800 (Some ''AAAA'') initial_state) =
     Some \<lparr> description = replicate 800 CHR ''x'', sources = [] \<rparr>"
    by (simp add: rejecting_cut_800_def narrating_run_details)
  have r: "generateNarration rejecting_cut_800 (replicate 500 CHR ''x'' @ ''...'') =
     Inl (Rejection (Some ''quota exceeded''))"
    by (simp add: rejecting_cut_800_def rejecting_only_rejects)
  have "replicate 800 CHR ''x'' \<noteq> replicate 500 CHR ''x'' @ ''...''"
  proof
    assume "replicate 800 CHR ''x'' = replicate 500 CHR ''x'' @ ''...''"
    then have "length (replicate 800 CHR ''x'') = length (replicate 500 CHR ''x'' @ ''...'')"
      by (rule arg_cong)
    then show False by simp
  qed
  then have a: "generateNarration rejecting_cut_800 (replicate 800 CHR ''x'') = Inr ''UklGRg=='' "
    by (simp add: rejecting_cut_800_def rejecting_only_answers)
  have m: "message_of (Rejection (Some ''quota exceeded'')) = Some (Some ''quota exceeded'')"
    by simp
  from narration_text_truncated
    [of "replicate 800 CHR ''x''" id rejecting_cut_800 "Some ''AAAA''" initial_state
       "\<lparr> description = replicate 800 CHR ''x'', sources = [] \<rparr>"] d r m
  have "status (startAnalysis rejecting_cut_800 (Some ''AAAA'') initial_state) = ERROR \<and>
    error (startAnalysis rejecting_cut_800 (Some ''AAAA'') initial_state) =
      Some \<lparr>message = or_default (Some ''quota exceeded'') ''Something went wrong during analysis.''\<rparr>"
    by simp
  with d r a show ?thesis by (simp add: or_default_def)
qed

text \<open>
  C5, as the specification states it, fails. The \<^verbatim>\<open>catch\<close> block reads \<^verbatim>\<open>e.message\<close>; when
  a step throws \<^verbatim>\<open>undefined\<close> or \<^verbatim>\<open>null\<close> that read throws in its turn, no update is made,
  and the run is over with the status of the step it was in: neither complete nor failed.
\<close>

theorem thrown_undefined_counterexample:
  "generateContent_vision nullish_platform (Some ''AAAA'') = Inl Nullish \<and>
   status (startAnalysis nullish_platform (Some ''AAAA'') initial_state) = ANALYZING_IMAGE \<and>
   error (startAnalysis nullish_platform (Some ''AAAA'') initial_state) = None"
  by (simp add: nullish_run) (simp add: nullish_platform_def initial_state_def)

text \<open>
  C5, amended. In every reachable state, and in every state a run started from the idle
  view goes through, the status \<open>COMPLETE\<close> implies that the analysis result, the details
  and the audio buffer are all present, and the status \<open>ERROR\<close> implies that an error with
  a non-empty message is stored; the state in which a run ends, from whatever state it
  started, satisfies this too. A run in which nothing throws \<^verbatim>\<open>undefined\<close> or \<^verbatim>\<open>null\<close> ends
  with one of the statuses \<open>COMPLETE\<close> and \<open>ERROR\<close>, never both and never neither. Each
  remote call is taken to settle, and two runs are not interleaved.
\<close>

theorem pipeline_ends_consistent:
  "(reachable s \<longrightarrow> consistent s) \<and>
   (status s0 = IDLE \<longrightarrow> (\<forall>t \<in> set (startAnalysis_trace p img s0). consistent t)) \<and>
   consistent (startAnalysis p img s0) \<and>
   (throws_objects p \<longrightarrow>
      (status (startAnalysis p img s0) = COMPLETE) \<noteq> (status (startAnalysis p img s0) = ERROR))"
  using startAnalysis_consistent[of p img s0] startAnalysis_settles[of p img s0]
    reachable_consistent[of s] trace_consistent[of s0 _ p img]
  by (auto simp: ended_def)

theorem pipeline_ends_consistent_witness:
  "reachable tower_result \<and> status tower_result = COMPLETE \<and> consistent tower_result \<and>
   landmark tower_result \<noteq> None \<and> details tower_result \<noteq> None \<and>
   audioBuffer tower_result \<noteq> None \<and> status initial_state = IDLE \<and>
   list_all consistent (startAnalysis_trace tower_platform (Some ''AAAA'') initial_state) \<and>
   throws_objects tower_platform \<and>
   status (startAnalysis tower_platform (Some ''AAAA'') initial_state) = COMPLETE"
proof -
  have i: "status initial_state = IDLE" by (simp add: initial_state_def)
  have c: "status tower_result = COMPLETE" by (simp add: tower_result_def)
  have r: "status (startAnalysis tower_platform (Some ''AAAA'') initial_state) = COMPLETE"
    by (simp add: startAnalysis_def startAnalysis_trace_def search_def narrate_def
      decode_def Let_def tower_identified tower_details tower_narration tower_decoders
      initial_state_def js_def)
  from pipeline_ends_consistent [of tower_result initial_state tower_platform "Some ''AAAA''"]
    tower_reachable tower_throws_objects i c r
  show ?thesis by (simp add: consistent_def list_all_iff)
qed

text \<open>
  C6. Given the response of the enrichment call, \<open>getLandmarkDetails\<close> returns as
  description the text of the response, or \<^verbatim>\<open>Could not retrieve details.\<close> when there
  is none or it is empty. Every source returned has a non-empty uri and comes from a
  grounding chunk with that uri, with the chunk's title, or \<^verbatim>\<open>Source\<close> when the title is
  missing or empty; every chunk with a non-empty uri has its uri among the sources; and
  without chunks the list of sources is empty.
\<close>

theorem details_mapped_and_filtered:
  assumes "getClient p = Inr ()" and "generateContent_search p nm vd = Inr r"
  shows
  "\<exists>d. getLandmarkDetails p nm vd = Inr d \<and>
       description d =
         (case response_text r of None \<Rightarrow> ''Could not retrieve details.''
          | Some t \<Rightarrow> if t = [] then ''Could not retrieve details.'' else t) \<and>
       (\<forall>s \<in> set (sources d). uri s \<noteq> [] \<and>
          (\<exists>c \<in> set (chunks_of r). \<exists>w. web c = Some w \<and> web_uri w = Some (uri s) \<and>
             title s = (case web_title w of None \<Rightarrow> ''Source''
                        | Some t \<Rightarrow> if t = [] then ''Source'' else t))) \<and>
       (\<forall>c \<in> set (chunks_of r). \<forall>w u. web c = Some w \<and> web_uri w = Some u \<and> u \<noteq> [] \<longrightarrow>
          u \<in> uri ` set (sources d)) \<and>
       (chunks_of r = [] \<longrightarrow> sources d = [])"
proof -
  let ?d = "\<lparr> description = or_default (response_text r) ''Could not retrieve details.'',
              sources = uniqueSources (sources_of r) \<rparr>"
  have d: "getLandmarkDetails p nm vd = Inr ?d"
    using assms by (rule getLandmarkDetails_ok)
  have kept: "uri s \<noteq> [] \<and>
          (\<exists>c \<in> set (chunks_of r). \<exists>w. web c = Some w \<and> web_uri w = Some (uri s) \<and>
             title s = (case web_title w of None \<Rightarrow> ''Source''
                        | Some t \<Rightarrow> if t = [] then ''Source'' else t))"
    if "s \<in> set (uniqueSources (sources_of r))" for s
  proof -
    from that uniqueSources_subset have "s \<in> set (sources_of r)" by blast
    then obtain c where c: "c \<in> set (chunks_of r)" "s = toSource c" "uri (toSource c) \<noteq> []"
      by (auto simp: sources_of_def)
    with toSource_kept[of c] show ?thesis by blast
  qed
  have all: "u \<in> uri ` set (uniqueSources (sources_of r))"
    if "c \<in> set (chunks_of r)" "web c = Some w" "web_uri w = Some u" "u \<noteq> []" for c w u
  proof -
    from that have "uri (toSource c) = u" by (simp add: toSource_uri)
    with that have "toSource c \<in> set (sources_of r)" by (simp add: sources_of_def)
    with \<open>uri (toSource c) = u\<close> have "u \<in> uri ` set (sources_of r)" by force
    then show ?thesis by (simp add: uniqueSources_uris)
  qed
  have empty: "chunks_of r = [] \<longrightarrow> uniqueSources (sources_of r) = []"
    by (simp add: sources_of_def uniqueSources_def Map_new_def Map_values_def)
  have "description ?d =
         (case response_text r of None \<Rightarrow> ''Could not retrieve details.''
          | Some t \<Rightarrow> if t = [] then ''Could not retrieve details.'' else t)"
    by (simp add: or_default_def)
  with d kept all empty show ?thesis
    by (intro exI[of _ ?d]) auto
qed

theorem details_mapped_and_filtered_witness:
  "getClient tower_platform = Inr () \<and>
   generateContent_search tower_platform None None = Inr tower_search \<and>
   response_text tower_search = Some ''Built for the 1889 fair.'' \<and>
   cite None (Some ''c'') \<in> set (chunks_of tower_search) \<and>
   (\<exists>d. getLandmarkDetails tower_platform None None = Inr d \<and>
        description d = ''Built for the 1889 fair.'' \<and>
        ''c'' \<in> uri ` set (sources d) \<and>
        \<lparr>title = ''Source'', uri = ''c''\<rparr> \<in> set (sources d))"
proof -
  have a: "getClient tower_platform = Inr ()"
    by (simp add: getClient_def tower_platform_def answering_def)
  have b: "generateContent_search tower_platform None None = Inr tower_search"
    by (simp add: tower_platform_def answering_def)
  have t: "response_text tower_search = Some ''Built for the 1889 fair.''"
    by (simp add: tower_search_def grounded_response_def)
  have c: "cite None (Some ''c'') \<in> set (chunks_of tower_search)"
    by (simp add: tower_search_def grounded_response_def tower_chunks_def chunks_of_def
        first_of_simps)
  have w: "web (cite None (Some ''c'')) = Some \<lparr> web_uri = Some ''c'', web_title = None \<rparr>"
    by (simp add: cite_def)
  from details_mapped_and_filtered [OF a b] obtain d where
    d: "getLandmarkDetails tower_platform None None = Inr d" and
    descr: "description d =
         (case response_text tower_search of None \<Rightarrow> ''Could not retrieve details.''
          | Some t \<Rightarrow> if t = [] then ''Could not retrieve details.'' else t)" and
    every: "\<forall>c \<in> set (chunks_of tower_search). \<forall>w u.
          web c = Some w \<and> web_uri w = Some u \<and> u \<noteq> [] \<longrightarrow> u \<in> uri ` set (sources d)"
    by blast
  from every c w have "''c'' \<in> uri ` set (sources d)"
    by force
  moreover from d have "\<lparr>title = ''Source'', uri = ''c''\<rparr> \<in> set (sources d)"
    by (auto simp: tower_details)
  moreover from descr t have "description d = ''Built for the 1889 fair.''"
    by simp
  ultimately show ?thesis using a b t c d by simp
qed




text \<open>
  C8. Toggling the audio when no decoded audio buffer exists changes nothing: the state
  after the call is the state before it, in every component, and nothing is thrown (the
  call returns at its first line).
\<close>

theorem toggle_without_buffer_is_noop: "audioBuffer s = None \<Longrightarrow> toggleAudio s = s"
  by (simp add: toggleAudio_def split: option.splits)

theorem toggle_without_buffer_is_noop_witness:
  "audioBuffer (playing_state\<lparr>audioBuffer := None\<rparr>) = None \<and>
   toggleAudio (playing_state\<lparr>audioBuffer := None\<rparr>) = playing_state\<lparr>audioBuffer := None\<rparr>"
  using toggle_without_buffer_is_noop [of "playing_state\<lparr>audioBuffer := None\<rparr>"] by simp

text \<open>
  C9. For every data URI that the reader delivers for the selected file, made of the
  scheme, a media type (which holds no comma), the base64 marker, a comma and the
  content in base64, the payload passed to the pipeline is what follows the first comma
  of the string, that is the content: the run is \<open>startAnalysis\<close> at that payload, and a
  rejection of the vision call at that payload is the error of the run. The same holds
  of every string with one comma, and a string without a comma has neither.
\<close>

theorem payload_after_first_comma:
  assumes "CHR '','' \<notin> set mediaType" and "list_all base64_char content64"
  shows
  "base64Data (readAsDataURL mediaType content64) =
     after_first_comma (readAsDataURL mediaType content64) \<and>
   base64Data (readAsDataURL mediaType content64) = Some content64 \<and>
   handleFileSelect p (Some (readAsDataURL mediaType content64)) s =
     s\<lparr>image_s := Some (readAsDataURL mediaType content64)\<rparr> #
     startAnalysis_trace p (Some content64)
       (s\<lparr>image_s := Some (readAsDataURL mediaType content64)\<rparr>) \<and>
   (\<forall>e m. getClient p = Inr () \<and> generateContent_vision p (Some content64) = Inl e \<and>
          message_of e = Some m \<longrightarrow>
      status (last (handleFileSelect p (Some (readAsDataURL mediaType content64)) s)) = ERROR \<and>
      error (last (handleFileSelect p (Some (readAsDataURL mediaType content64)) s)) =
        Some \<lparr>message = or_default m ''Something went wrong during analysis.''\<rparr>) \<and>
   (CHR '','' \<notin> set h \<and> CHR '','' \<notin> set b \<longrightarrow>
      base64Data (h @ CHR '','' # b) = Some b \<and> after_first_comma (h @ CHR '','' # b) = Some b) \<and>
   (CHR '','' \<notin> set u \<longrightarrow> base64Data u = None \<and> after_first_comma u = None)"
proof -
  let ?r = "readAsDataURL mediaType content64"
  from assms have h: "CHR '','' \<notin> set (''data:'' @ mediaType @ '';base64'')"
    and c: "CHR '','' \<notin> set content64"
    by (simp_all add: base64_no_comma)
  from single_comma[OF h c] have b: "base64Data ?r = Some content64"
    and a: "after_first_comma ?r = Some content64"
    by (simp_all add: readAsDataURL_def)
  have t: "handleFileSelect p (Some ?r) s =
     s\<lparr>image_s := Some ?r\<rparr> # startAnalysis_trace p (Some content64) (s\<lparr>image_s := Some ?r\<rparr>)"
    by (simp add: handleFileSelect_def onload_def Let_def b)
  have l: "last (handleFileSelect p (Some ?r) s) =
      startAnalysis p (Some content64) (s\<lparr>image_s := Some ?r\<rparr>)"
    by (simp add: handleFileSelect_last b)
  have none: "base64Data u = None" if "CHR '','' \<notin> set u"
    using that by (simp add: base64Data_def split_no_sep nth_opt_def)
  from a b t none show ?thesis
    unfolding l
    using run_identification_rejected[of p "Some content64" _ _ "s\<lparr>image_s := Some ?r\<rparr>"]
      single_comma[of h b] after_first_comma_none[of u]
    by auto
qed

theorem payload_after_first_comma_witness:
  "CHR '','' \<notin> set ''image/png'' \<and> list_all base64_char ''AAAA'' \<and>
   readAsDataURL ''image/png'' ''AAAA'' = ''data:image/png;base64,AAAA'' \<and>
   base64Data ''data:image/png;base64,AAAA'' = Some ''AAAA'' \<and>
   after_first_comma ''data:image/png;base64,AAAA'' = Some ''AAAA''"
proof -
  have a: "CHR '','' \<notin> set ''image/png''" by simp
  have b: "list_all base64_char ''AAAA''" by (simp add: base64_char_def code_def)
  have r: "readAsDataURL ''image/png'' ''AAAA'' = ''data:image/png;base64,AAAA''"
    by (simp add: readAsDataURL_def)
  from payload_after_first_comma
    [OF a b, where p = tower_platform and s = initial_state and h = "[]" and b = "[]" and u = "[]"]
  have "base64Data (readAsDataURL ''image/png'' ''AAAA'') =
      after_first_comma (readAsDataURL ''image/png'' ''AAAA'')"
    and "base64Data (readAsDataURL ''image/png'' ''AAAA'') = Some ''AAAA''"
    by blast+
  then have "base64Data ''data:image/png;base64,AAAA'' = Some ''AAAA''"
    and "after_first_comma ''data:image/png;base64,AAAA'' = Some ''AAAA''"
    unfolding r by simp_all
  with a b r show ?thesis
    by blast
qed

text \<open>
  C10. A description of exactly 500 characters is narrated as it is, without dots: the
  condition for truncating is a length strictly greater than 500, so that 501 characters
  are the shortest description that is cut. For a run that has stored details of 500
  characters, it is the description itself at which the synthesis service is consulted,
  whose rejection is the error of the run and whose answer is the audio of a run that
  completes. The length is a count of units, whatever they are: the expression commutes
  with every recoding of them.
\<close>

theorem description_of_500_unmodified:
  "(length d = 500 \<longrightarrow> ttsText d = d) \<and>
   (length d = 501 \<longrightarrow> ttsText d = take 500 d @ ''...'') \<and>
   (details (startAnalysis p img s) = Some dr \<and> length (description dr) = 500 \<longrightarrow>
      (f (description dr) = generateContent_tts p (description dr) \<longrightarrow>
         startAnalysis (p\<lparr>generateContent_tts := f\<rparr>) img s = startAnalysis p img s) \<and>
      (\<forall>e m. generateNarration p (description dr) = Inl e \<and> message_of e = Some m \<longrightarrow>
         status (startAnalysis p img s) = ERROR \<and>
         error (startAnalysis p img s) =
           Some \<lparr>message = or_default m ''Something went wrong during analysis.''\<rparr>) \<and>
      (status (startAnalysis p img s) = COMPLETE \<longrightarrow>
         (\<exists>a raw ctx buf. generateNarration p (description dr) = Inr a \<and>
            decodeBase64 p a = Inr raw \<and> decodeAudioData p raw ctx 24000 1 = Inr buf \<and>
            audioBuffer (startAnalysis p img s) = Some buf))) \<and>
   map g (ttsText d) = ttsText_units (map g ''...'') (map g d)"
proof -
  have run: "(f (description dr) = generateContent_tts p (description dr) \<longrightarrow>
         startAnalysis (p\<lparr>generateContent_tts := f\<rparr>) img s = startAnalysis p img s) \<and>
      (\<forall>e m. generateNarration p (description dr) = Inl e \<and> message_of e = Some m \<longrightarrow>
         status (startAnalysis p img s) = ERROR \<and>
         error (startAnalysis p img s) =
           Some \<lparr>message = or_default m ''Something went wrong during analysis.''\<rparr>) \<and>
      (status (startAnalysis p img s) = COMPLETE \<longrightarrow>
         (\<exists>a raw ctx buf. generateNarration p (description dr) = Inr a \<and>
            decodeBase64 p a = Inr raw \<and> decodeAudioData p raw ctx 24000 1 = Inr buf \<and>
            audioBuffer (startAnalysis p img s) = Some buf))"
    if d: "details (startAnalysis p img s) = Some dr" and l: "length (description dr) = 500"
  proof -
    from l have t: "ttsText (description dr) = description dr"
      by (simp add: ttsText_eq)
    from run_tts_only[OF d] run_narration_rejected[OF d] run_complete_narrated[OF d]
    show ?thesis unfolding t by blast
  qed
  have "length d = 500 \<longrightarrow> ttsText d = d"
    by (simp add: ttsText_eq)
  moreover have "length d = 501 \<longrightarrow> ttsText d = take 500 d @ ''...''"
    by (simp add: ttsText_eq)
  ultimately show ?thesis using run ttsText_map[of g d] by blast
qed

theorem description_of_500_unmodified_witness:
  "length (replicate 500 CHR ''a'') = 500 \<and>
   ttsText (replicate 500 CHR ''a'') = replicate 500 CHR ''a'' \<and>
   length (replicate 501 CHR ''a'') = 501 \<and>
   ttsText (replicate 501 CHR ''a'') = replicate 500 CHR ''a'' @ ''...'' \<and>
   details (startAnalysis rejecting_whole_500 (Some ''AAAA'') initial_state) =
     Some \<lparr> description = replicate 500 CHR ''a'', sources = [] \<rparr> \<and>
   generateNarration rejecting_whole_500 (replicate 500 CHR ''a'') =
     Inl (Rejection (Some ''quota exceeded'')) \<and>
   generateNarration rejecting_whole_500 (replicate 500 CHR ''a'' @ ''...'') = Inr ''UklGRg=='' \<and>
   status (startAnalysis rejecting_whole_500 (Some ''AAAA'') initial_state) = ERROR \<and>
   error (startAnalysis rejecting_whole_500 (Some ''AAAA'') initial_state) =
     Some \<lparr>message = ''quota exceeded''\<rparr>"
proof -
  have d: "details (startAnalysis rejecting_whole_500 (Some ''AAAA'') initial_state) =
     Some \<lparr> description = replicate 500 CHR ''a'', sources = [] \<rparr>"
    by (simp add: rejecting_whole_500_def narrating_run_details)
  have r: "generateNarration rejecting_whole_500 (replicate 500 CHR ''a'') =
     Inl (Rejection (Some ''quota exceeded''))"
    by (simp add: rejecting_whole_500_def rejecting_only_rejects)
  have a: "generateNarration rejecting_whole_500 (replicate 500 CHR ''a'' @ ''...'') =
     Inr ''UklGRg=='' "
    by (simp add: rejecting_whole_500_def rejecting_only_answers)
  have m: "message_of (Rejection (Some ''quota exceeded'')) = Some (Some ''quota exceeded'')"
    by simp
  from description_of_500_unmodified
    [where d = "replicate 500 CHR ''a''" and p = rejecting_whole_500 and img = "Some ''AAAA''"
       and s = initial_state
       and dr = "\<lparr> description = replicate 500 CHR ''a'', sources = [] \<rparr>"
       and f = "generateContent_tts rejecting_whole_500" and g = id] d r m
  have "status (startAnalysis rejecting_whole_500 (Some ''AAAA'') initial_state) = ERROR \<and>
    error (startAnalysis rejecting_whole_500 (Some ''AAAA'') initial_state) =
      Some \<lparr>message = or_default (Some ''quota exceeded'') ''Something went wrong during analysis.''\<rparr>"
    by simp
  moreover have "ttsText (replicate 500 CHR ''a'') = replicate 500 CHR ''a''"
    using description_of_500_unmodified
      [where d = "replicate 500 CHR ''a''" and p = rejecting_whole_500 and img = "Some ''AAAA''"
         and s = initial_state
         and dr = "\<lparr> description = replicate 500 CHR ''a'', sources = [] \<rparr>"
         and f = "generateContent_tts rejecting_whole_500" and g = id]
    by simp
  moreover have "ttsText (replicate 501 CHR ''a'') = replicate 500 CHR ''a'' @ ''...''"
    using description_of_500_unmodified
      [where d = "replicate 501 CHR ''a''" and p = rejecting_whole_500 and img = "Some ''AAAA''"
         and s = initial_state
         and dr = "\<lparr> description = replicate 500 CHR ''a'', sources = [] \<rparr>"
         and f = "generateContent_tts rejecting_whole_500" and g = id]
    by simp
  ultimately show ?thesis
    using d r a by (simp add: or_default_def)
qed

end
